theory Spec2Isabelle
  imports Complex_Main
begin

section \<open>Numbers and vectors\<close>

text \<open>
  JavaScript numbers are IEEE 754 doubles. Two embeddings of their arithmetic are used.

  In the first, numbers are the real numbers: every arithmetic operation of the source is
  read as the exact operation, so rounding, infinities and NaN are outside of it. The
  statements about bounds, order, sign and limits are made in it. Where a statement below
  would read differently under rounding, the text of that statement says so.

  In the second, a double is the real number it denotes, and every arithmetic operation
  of the source is the exact operation followed by \<open>round64\<close>, the rounding to the nearest
  double, ties to the even significand, subnormal numbers included. A decimal literal of
  the source is the double nearest to it, so \<open>0.01\<close> is \<open>round64 0.01\<close>. Overflow to
  infinity, NaN and the sign of zero are outside of it. The statements about the exact
  values of sums and products (accelerating from rest, steering) are made in it.

  \<open>THREE.Vector3\<close> is a mutable triple of numbers; \<open>add\<close> adds componentwise, \<open>set\<close>
  overwrites the three components, \<open>lerp v alpha\<close> moves each component by
  \<open>(v - this) * alpha\<close>. \<open>THREE.MathUtils.clamp (value, min, max)\<close> is
  \<open>Math.max (min, Math.min (max, value))\<close>. These are functions of the three.js library,
  written here as that library defines them.
\<close>

record vector3 =
  vec_x :: real
  vec_y :: real
  vec_z :: real

definition Vector3 :: "real \<Rightarrow> real \<Rightarrow> real \<Rightarrow> vector3" where
  "Vector3 a b c = \<lparr>vec_x = a, vec_y = b, vec_z = c\<rparr>"

definition vec_add :: "vector3 \<Rightarrow> vector3 \<Rightarrow> vector3" where
  "vec_add p v = \<lparr>vec_x = vec_x p + vec_x v, vec_y = vec_y p + vec_y v, vec_z = vec_z p + vec_z v\<rparr>"

definition vec_lerp :: "vector3 \<Rightarrow> vector3 \<Rightarrow> real \<Rightarrow> vector3" where
  "vec_lerp p v alpha =
     \<lparr>vec_x = vec_x p + (vec_x v - vec_x p) * alpha,
      vec_y = vec_y p + (vec_y v - vec_y p) * alpha,
      vec_z = vec_z p + (vec_z v - vec_z p) * alpha\<rparr>"

definition clamp :: "real \<Rightarrow> real \<Rightarrow> real \<Rightarrow> real" where
  "clamp v lo hi = max lo (min hi v)"

section \<open>TruckController\<close>

text \<open>
  The four flags of \<open>this.controls\<close>, and the names by which \<open>addButtonListeners\<close>
  indexes them (\<open>this.controls[controlName]\<close>).
\<close>

record controls_state =
  gas :: bool
  brake :: bool
  left :: bool
  right :: bool

datatype control_name = GasName | BrakeName | LeftName | RightName

fun get_control :: "control_name \<Rightarrow> controls_state \<Rightarrow> bool" where
  "get_control GasName c = gas c"
| "get_control BrakeName c = brake c"
| "get_control LeftName c = left c"
| "get_control RightName c = right c"

fun set_control :: "control_name \<Rightarrow> bool \<Rightarrow> controls_state \<Rightarrow> controls_state" where
  "set_control GasName b c = c\<lparr>gas := b\<rparr>"
| "set_control BrakeName b c = c\<lparr>brake := b\<rparr>"
| "set_control LeftName b c = c\<lparr>left := b\<rparr>"
| "set_control RightName b c = c\<lparr>right := b\<rparr>"

definition no_controls :: controls_state where
  "no_controls = \<lparr>gas = False, brake = False, left = False, right = False\<rparr>"

text \<open>
  The fields of a \<open>TruckController\<close>. The field \<open>truck\<close> (the mesh the controller writes
  its position, rotation and wheel spin to at the end of \<open>update\<close>) is left out: the
  controller never reads it back.
\<close>

record truck_controller =
  position :: vector3
  velocity :: vector3
  rotation :: real
  speed :: real
  maxSpeed :: real
  acceleration :: real
  braking :: real
  friction :: real
  turnSpeed :: real
  controls :: controls_state

definition new_TruckController :: truck_controller where
  "new_TruckController =
     \<lparr>position = Vector3 0 0 0,
      velocity = Vector3 0 0 0,
      rotation = 0,
      speed = 0,
      maxSpeed = 0.5,
      acceleration = 0.01,
      braking = 0.02,
      friction = 0.98,
      turnSpeed = 0.03,
      controls = no_controls\<rparr>"

subsection \<open>update\<close>

text \<open>
  \<open>update (deltaTime)\<close> in the order of its source: the speed block (acceleration, braking
  or friction, then the clamp), the turning block, the position block (velocity, position,
  lane clamp). The parameter \<open>deltaTime\<close> is never read by the body.
\<close>

definition update_speed :: "truck_controller \<Rightarrow> truck_controller" where
  "update_speed s =
     (let s1 = (if gas (controls s) then s\<lparr>speed := speed s + acceleration s\<rparr>
                else if brake (controls s) then s\<lparr>speed := speed s - braking s\<rparr>
                else s\<lparr>speed := speed s * friction s\<rparr>)
      in s1\<lparr>speed := clamp (speed s1) (- maxSpeed s1 * 0.5) (maxSpeed s1)\<rparr>)"

definition update_rotation :: "truck_controller \<Rightarrow> truck_controller" where
  "update_rotation s =
     (if \<bar>speed s\<bar> > 0.01 then
        (let turnDirection = (if speed s > 0 then 1 else - 1);
             s1 = (if left (controls s)
                   then s\<lparr>rotation := rotation s + turnSpeed s * \<bar>speed s\<bar> / maxSpeed s * turnDirection\<rparr>
                   else s);
             s2 = (if right (controls s1)
                   then s1\<lparr>rotation := rotation s1 - turnSpeed s1 * \<bar>speed s1\<bar> / maxSpeed s1 * turnDirection\<rparr>
                   else s1)
         in s2)
      else s)"

definition update_position :: "truck_controller \<Rightarrow> truck_controller" where
  "update_position s =
     (let v = (velocity s)\<lparr>vec_x := sin (rotation s) * speed s, vec_z := cos (rotation s) * speed s\<rparr>;
          p = vec_add (position s) v
      in s\<lparr>velocity := v, position := p\<lparr>vec_x := clamp (vec_x p) (- 3) 3\<rparr>\<rparr>)"

definition update :: "real \<Rightarrow> truck_controller \<Rightarrow> truck_controller" where
  "update deltaTime s = update_position (update_rotation (update_speed s))"

subsection \<open>reset\<close>

definition reset :: "truck_controller \<Rightarrow> truck_controller" where
  "reset s = s\<lparr>position := Vector3 0 0 0, velocity := Vector3 0 0 0, rotation := 0, speed := 0,
               controls := no_controls\<rparr>"

subsection \<open>Input listeners\<close>

text \<open>
  \<open>setupControls\<close> registers one \<open>keydown\<close> and one \<open>keyup\<close> listener on the document
  and, through \<open>addButtonListeners\<close>, five listeners on each of the four on-screen buttons
  that exist. Every listener writes one flag of \<open>this.controls\<close>.

  A keyboard event carries \<open>e.key\<close> and \<open>e.code\<close>. The listeners compare
  \<open>e.key.toLowerCase ()\<close> with four names made of ASCII letters, so lower-casing is
  modelled on the ASCII letters; a key name with any other character equals none of them
  before or after lower-casing.
\<close>

definition lower_char :: "char \<Rightarrow> char" where
  "lower_char c =
     (case map_of (zip ''ABCDEFGHIJKLMNOPQRSTUVWXYZ'' ''abcdefghijklmnopqrstuvwxyz'') c of
        Some l \<Rightarrow> l
      | None \<Rightarrow> c)"

definition toLowerCase :: "string \<Rightarrow> string" where
  "toLowerCase k = map lower_char k"

definition keydown :: "string \<Rightarrow> string \<Rightarrow> truck_controller \<Rightarrow> truck_controller" where
  "keydown ekey code s =
     (let key = toLowerCase ekey in
      if key = ''arrowup'' \<or> code = ''KeyW'' then s\<lparr>controls := (controls s)\<lparr>gas := True\<rparr>\<rparr>
      else if key = ''arrowdown'' \<or> code = ''KeyS'' then s\<lparr>controls := (controls s)\<lparr>brake := True\<rparr>\<rparr>
      else if key = ''arrowleft'' \<or> code = ''KeyA'' then s\<lparr>controls := (controls s)\<lparr>left := True\<rparr>\<rparr>
      else if key = ''arrowright'' \<or> code = ''KeyD'' then s\<lparr>controls := (controls s)\<lparr>right := True\<rparr>\<rparr>
      else s)"

definition keyup :: "string \<Rightarrow> string \<Rightarrow> truck_controller \<Rightarrow> truck_controller" where
  "keyup ekey code s =
     (let key = toLowerCase ekey in
      if key = ''arrowup'' \<or> code = ''KeyW'' then s\<lparr>controls := (controls s)\<lparr>gas := False\<rparr>\<rparr>
      else if key = ''arrowdown'' \<or> code = ''KeyS'' then s\<lparr>controls := (controls s)\<lparr>brake := False\<rparr>\<rparr>
      else if key = ''arrowleft'' \<or> code = ''KeyA'' then s\<lparr>controls := (controls s)\<lparr>left := False\<rparr>\<rparr>
      else if key = ''arrowright'' \<or> code = ''KeyD'' then s\<lparr>controls := (controls s)\<lparr>right := False\<rparr>\<rparr>
      else s)"

text \<open>The five listeners \<open>addButtonListeners (button, controlName)\<close> puts on a button.\<close>

datatype button_event = TouchStart | TouchEnd | MouseDown | MouseUp | MouseLeave

fun button_listener :: "control_name \<Rightarrow> button_event \<Rightarrow> truck_controller \<Rightarrow> truck_controller" where
  "button_listener controlName TouchStart s = s\<lparr>controls := set_control controlName True (controls s)\<rparr>"
| "button_listener controlName TouchEnd s = s\<lparr>controls := set_control controlName False (controls s)\<rparr>"
| "button_listener controlName MouseDown s = s\<lparr>controls := set_control controlName True (controls s)\<rparr>"
| "button_listener controlName MouseUp s = s\<lparr>controls := set_control controlName False (controls s)\<rparr>"
| "button_listener controlName MouseLeave s = s\<lparr>controls := set_control controlName False (controls s)\<rparr>"

subsection \<open>Histories of a controller\<close>

text \<open>
  What can happen to a controller after its construction: a keyboard event, an event on
  the button registered for a control, a call of \<open>update\<close>, a call of \<open>reset\<close>. The
  browser runs them one at a time, so a history is a list and the state it leads to is a
  fold from the constructor's state. An event on a button that is missing from the page
  cannot be delivered (\<open>addButtonListeners\<close> returns before registering anything), so it
  does not occur in a history.
\<close>

datatype truck_action =
    KeyDown string string
  | KeyUp string string
  | Button control_name button_event
  | Update real
  | Reset

fun step :: "truck_action \<Rightarrow> truck_controller \<Rightarrow> truck_controller" where
  "step (KeyDown ekey code) s = keydown ekey code s"
| "step (KeyUp ekey code) s = keyup ekey code s"
| "step (Button controlName ev) s = button_listener controlName ev s"
| "step (Update deltaTime) s = update deltaTime s"
| "step Reset s = reset s"

definition run_from :: "truck_controller \<Rightarrow> truck_action list \<Rightarrow> truck_controller" where
  "run_from s acts = fold step acts s"

definition run :: "truck_action list \<Rightarrow> truck_controller" where
  "run acts = run_from new_TruckController acts"

text \<open>\<open>ticks n dt s\<close>: \<open>n\<close> successive calls of \<open>update (dt)\<close> with no input event between them.\<close>

primrec ticks :: "nat \<Rightarrow> real \<Rightarrow> truck_controller \<Rightarrow> truck_controller" where
  "ticks 0 dt s = s"
| "ticks (Suc n) dt s = update dt (ticks n dt s)"

section \<open>CameraController\<close>

text \<open>
  The fields of a \<open>CameraController\<close>. Of the three.js camera it holds, only the position
  is kept (\<open>camera_position\<close>); \<open>lookAt\<close> sets the camera's orientation, which the
  controller never reads. The constructor takes the camera, so its position at
  construction is a parameter. \<open>setupControls\<close> needs the canvas element to exist.
\<close>

record camera_controller =
  camera_position :: vector3
  distance :: real
  height :: real
  angleH :: real
  angleV :: real
  minAngleV :: real
  maxAngleV :: real
  sensitivity :: real
  isRotating :: bool
  lastX :: real
  lastY :: real
  touchStartX :: real
  touchStartY :: real
  isTouchRotating :: bool

definition new_CameraController :: "vector3 \<Rightarrow> camera_controller" where
  "new_CameraController camera =
     \<lparr>camera_position = camera,
      distance = 15,
      height = 8,
      angleH = 0,
      angleV = 0.3,
      minAngleV = 0.1,
      maxAngleV = pi / 3,
      sensitivity = 0.003,
      isRotating = False,
      lastX = 0,
      lastY = 0,
      touchStartX = 0,
      touchStartY = 0,
      isTouchRotating = False\<rparr>"

subsection \<open>Mouse, touch and wheel listeners\<close>

text \<open>
  A mouse event carries \<open>e.button\<close>, \<open>e.clientX\<close> and \<open>e.clientY\<close>; a touch event carries
  \<open>e.touches\<close>, the list of the touches now on the surface, each with its \<open>clientX\<close> and
  \<open>clientY\<close>; a wheel event carries \<open>e.deltaY\<close>.
\<close>

definition canvas_mousedown :: "int \<Rightarrow> real \<Rightarrow> real \<Rightarrow> camera_controller \<Rightarrow> camera_controller" where
  "canvas_mousedown button clientX clientY s =
     (if button = 2 then s\<lparr>isRotating := True, lastX := clientX, lastY := clientY\<rparr> else s)"

definition canvas_mousemove :: "real \<Rightarrow> real \<Rightarrow> camera_controller \<Rightarrow> camera_controller" where
  "canvas_mousemove clientX clientY s =
     (if isRotating s then
        (let deltaX = clientX - lastX s;
             deltaY = clientY - lastY s;
             s1 = s\<lparr>angleH := angleH s - deltaX * sensitivity s\<rparr>;
             s2 = s1\<lparr>angleV := angleV s1 + deltaY * sensitivity s1\<rparr>;
             s3 = s2\<lparr>angleV := max (minAngleV s2) (min (maxAngleV s2) (angleV s2))\<rparr>
         in s3\<lparr>lastX := clientX, lastY := clientY\<rparr>)
      else s)"

definition window_mouseup :: "int \<Rightarrow> camera_controller \<Rightarrow> camera_controller" where
  "window_mouseup button s = (if button = 2 then s\<lparr>isRotating := False\<rparr> else s)"

definition canvas_touchstart :: "(real \<times> real) list \<Rightarrow> camera_controller \<Rightarrow> camera_controller" where
  "canvas_touchstart touches s =
     (if length touches = 2 then
        (let touch = touches ! 0
         in s\<lparr>isTouchRotating := True, touchStartX := fst touch, touchStartY := snd touch\<rparr>)
      else s)"

definition canvas_touchmove :: "(real \<times> real) list \<Rightarrow> camera_controller \<Rightarrow> camera_controller" where
  "canvas_touchmove touches s =
     (if isTouchRotating s \<and> length touches = 2 then
        (let touch = touches ! 0;
             deltaX = fst touch - touchStartX s;
             deltaY = snd touch - touchStartY s;
             s1 = s\<lparr>angleH := angleH s - deltaX * sensitivity s\<rparr>;
             s2 = s1\<lparr>angleV := angleV s1 + deltaY * sensitivity s1\<rparr>;
             s3 = s2\<lparr>angleV := max (minAngleV s2) (min (maxAngleV s2) (angleV s2))\<rparr>
         in s3\<lparr>touchStartX := fst touch, touchStartY := snd touch\<rparr>)
      else s)"

definition canvas_touchend :: "(real \<times> real) list \<Rightarrow> camera_controller \<Rightarrow> camera_controller" where
  "canvas_touchend touches s = (if length touches < 2 then s\<lparr>isTouchRotating := False\<rparr> else s)"

definition canvas_wheel :: "real \<Rightarrow> camera_controller \<Rightarrow> camera_controller" where
  "canvas_wheel deltaY s =
     (let s1 = s\<lparr>distance := distance s + deltaY * 0.01\<rparr>
      in s1\<lparr>distance := max 5 (min 30 (distance s1))\<rparr>)"

subsection \<open>update and reset of the camera\<close>

text \<open>
  \<open>targetCameraPos\<close> is the local of that name in \<open>CameraController.update\<close>: a clone of the
  truck's position moved by the three offsets.
\<close>

definition targetCameraPos :: "vector3 \<Rightarrow> real \<Rightarrow> camera_controller \<Rightarrow> vector3" where
  "targetCameraPos targetPosition targetRotation s =
     (let totalAngle = targetRotation + angleH s;
          offsetX = sin totalAngle * distance s * cos (angleV s);
          offsetZ = cos totalAngle * distance s * cos (angleV s);
          offsetY = distance s * sin (angleV s)
      in \<lparr>vec_x = vec_x targetPosition - offsetX,
          vec_y = vec_y targetPosition + offsetY,
          vec_z = vec_z targetPosition - offsetZ\<rparr>)"

definition camera_update :: "vector3 \<Rightarrow> real \<Rightarrow> camera_controller \<Rightarrow> camera_controller" where
  "camera_update targetPosition targetRotation s =
     s\<lparr>camera_position :=
         vec_lerp (camera_position s) (targetCameraPos targetPosition targetRotation s) 0.1\<rparr>"

definition camera_reset :: "camera_controller \<Rightarrow> camera_controller" where
  "camera_reset s = s\<lparr>angleH := 0, angleV := 0.3\<rparr>"

datatype camera_action =
    CanvasMouseDown int real real
  | CanvasMouseMove real real
  | WindowMouseUp int
  | CanvasTouchStart "(real \<times> real) list"
  | CanvasTouchMove "(real \<times> real) list"
  | CanvasTouchEnd "(real \<times> real) list"
  | CanvasWheel real
  | CameraUpdate vector3 real
  | CameraReset

fun camera_step :: "camera_action \<Rightarrow> camera_controller \<Rightarrow> camera_controller" where
  "camera_step (CanvasMouseDown button clientX clientY) s = canvas_mousedown button clientX clientY s"
| "camera_step (CanvasMouseMove clientX clientY) s = canvas_mousemove clientX clientY s"
| "camera_step (WindowMouseUp button) s = window_mouseup button s"
| "camera_step (CanvasTouchStart touches) s = canvas_touchstart touches s"
| "camera_step (CanvasTouchMove touches) s = canvas_touchmove touches s"
| "camera_step (CanvasTouchEnd touches) s = canvas_touchend touches s"
| "camera_step (CanvasWheel deltaY) s = canvas_wheel deltaY s"
| "camera_step (CameraUpdate targetPosition targetRotation) s = camera_update targetPosition targetRotation s"
| "camera_step CameraReset s = camera_reset s"

definition camera_run :: "vector3 \<Rightarrow> camera_action list \<Rightarrow> camera_controller" where
  "camera_run camera acts = fold camera_step acts (new_CameraController camera)"

section \<open>The control flags and their input sources\<close>

text \<open>
  \<open>key_binding\<close>: the flag a keyboard event is bound to, read off the chain of tests that
  the \<open>keydown\<close> and \<open>keyup\<close> listeners share.
\<close>

definition key_binding :: "string \<Rightarrow> string \<Rightarrow> control_name option" where
  "key_binding ekey code =
     (let key = toLowerCase ekey in
      if key = ''arrowup'' \<or> code = ''KeyW'' then Some GasName
      else if key = ''arrowdown'' \<or> code = ''KeyS'' then Some BrakeName
      else if key = ''arrowleft'' \<or> code = ''KeyA'' then Some LeftName
      else if key = ''arrowright'' \<or> code = ''KeyD'' then Some RightName
      else None)"

text \<open>
  \<open>writes a n\<close>: the value action \<open>a\<close> assigns to flag \<open>n\<close>, if it assigns one.
  \<open>last_write n acts\<close>: the value of the most recent assignment to \<open>n\<close> in the history
  \<open>acts\<close>, and \<open>False\<close> (the constructor's value) if there is none.
\<close>

fun writes :: "truck_action \<Rightarrow> control_name \<Rightarrow> bool option" where
  "writes (KeyDown ekey code) n = (if key_binding ekey code = Some n then Some True else None)"
| "writes (KeyUp ekey code) n = (if key_binding ekey code = Some n then Some False else None)"
| "writes (Button m ev) n = (if m = n then Some (ev = TouchStart \<or> ev = MouseDown) else None)"
| "writes (Update dt) n = None"
| "writes Reset n = Some False"

primrec latest_write :: "control_name \<Rightarrow> truck_action list \<Rightarrow> bool" where
  "latest_write n [] = False"
| "latest_write n (a # earlier) = (case writes a n of Some b \<Rightarrow> b | None \<Rightarrow> latest_write n earlier)"

definition last_write :: "control_name \<Rightarrow> truck_action list \<Rightarrow> bool" where
  "last_write n acts = latest_write n (rev acts)"

text \<open>
  The input sources of the specification: a keyboard key (named by the \<open>key\<close> and \<open>code\<close>
  its events carry), a touch on a button, the mouse on a button. A source becomes active
  with its press event and inactive with its release event; \<open>active_sources\<close> follows a
  history and keeps the sources that are active at its end. The source has no such
  bookkeeping: these definitions state the specification's invariant, that a flag is set
  if and only if a source bound to it is active.
\<close>

datatype input_source = KeySource string string | TouchSource control_name | MouseSource control_name

fun bound_intent :: "input_source \<Rightarrow> control_name option" where
  "bound_intent (KeySource ekey code) = key_binding ekey code"
| "bound_intent (TouchSource n) = Some n"
| "bound_intent (MouseSource n) = Some n"

fun source_change :: "truck_action \<Rightarrow> (input_source \<times> bool) option" where
  "source_change (KeyDown ekey code) = Some (KeySource ekey code, True)"
| "source_change (KeyUp ekey code) = Some (KeySource ekey code, False)"
| "source_change (Button n TouchStart) = Some (TouchSource n, True)"
| "source_change (Button n TouchEnd) = Some (TouchSource n, False)"
| "source_change (Button n MouseDown) = Some (MouseSource n, True)"
| "source_change (Button n MouseUp) = Some (MouseSource n, False)"
| "source_change (Button n MouseLeave) = Some (MouseSource n, False)"
| "source_change (Update dt) = None"
| "source_change Reset = None"

fun track_source :: "truck_action \<Rightarrow> input_source list \<Rightarrow> input_source list" where
  "track_source a held =
     (case source_change a of
        None \<Rightarrow> held
      | Some (src, True) \<Rightarrow> List.insert src held
      | Some (src, False) \<Rightarrow> removeAll src held)"

definition active_sources :: "truck_action list \<Rightarrow> input_source list" where
  "active_sources acts = fold track_source acts []"

definition intent_has_active_source :: "control_name \<Rightarrow> truck_action list \<Rightarrow> bool" where
  "intent_has_active_source n acts =
     list_ex (\<lambda>src. bound_intent src = Some n) (active_sources acts)"

definition intent_tracks_sources :: "truck_action list \<Rightarrow> control_name \<Rightarrow> bool" where
  "intent_tracks_sources acts n \<longleftrightarrow>
     get_control n (controls (run acts)) = intent_has_active_source n acts"

section \<open>Predicates on controller states\<close>

text \<open>
  \<open>configured\<close>: the five tuning fields hold the values the constructor gives them. No
  method or listener of the class assigns them again.
  \<open>speed_ok\<close>: the speed is within the limits of the clamp in \<open>update\<close>.
  \<open>grounded\<close>: position and velocity have no vertical component.
\<close>

definition configured :: "truck_controller \<Rightarrow> bool" where
  "configured s \<longleftrightarrow>
     maxSpeed s = 0.5 \<and> acceleration s = 0.01 \<and> braking s = 0.02 \<and> friction s = 0.98 \<and>
     turnSpeed s = 0.03"

definition grounded :: "truck_controller \<Rightarrow> bool" where
  "grounded s \<longleftrightarrow> vec_y (position s) = 0 \<and> vec_y (velocity s) = 0"

definition speed_ok :: "truck_controller \<Rightarrow> bool" where
  "speed_ok s \<longleftrightarrow> - maxSpeed s * 0.5 \<le> speed s \<and> speed s \<le> maxSpeed s"

text \<open>
  For the camera: \<open>camera_configured\<close> says that the two limits of the vertical angle hold
  the constructor's values (nothing assigns them again); \<open>angleV_ok\<close> says that the vertical
  angle is within them. \<open>vec_distance\<close> is the Euclidean distance of two points
  (\<open>distanceTo\<close> in three.js).
\<close>

definition angleV_ok :: "camera_controller \<Rightarrow> bool" where
  "angleV_ok s \<longleftrightarrow> minAngleV s \<le> angleV s \<and> angleV s \<le> maxAngleV s"

definition camera_configured :: "camera_controller \<Rightarrow> bool" where
  "camera_configured s \<longleftrightarrow> minAngleV s = 0.1 \<and> maxAngleV s = pi / 3"


section \<open>Binary64 arithmetic\<close>

text \<open>
  \<open>rne y\<close> is the integer nearest to \<open>y\<close>, the even one of the two at a tie.
  \<open>binade x\<close> is the exponent \<open>e\<close> with \<open>2 ^ e \<le> \<bar>x\<bar> < 2 ^ (e + 1)\<close>, and \<open>-1022\<close> for the
  smaller \<open>x\<close>, whose doubles are the subnormal ones. \<open>ulp64 x\<close> is the distance of two
  neighbouring doubles of that binade, \<open>2 ^ (e - 52)\<close>: a double has 53 significant bits.
  \<open>round64 x\<close> is the multiple of \<open>ulp64 x\<close> nearest to \<open>x\<close>, the one with the even
  significand at a tie. This is the rounding IEEE 754 prescribes for the result of
  \<open>+\<close>, \<open>-\<close>, \<open>*\<close> and \<open>/\<close> and ECMAScript for the value of a decimal literal. Results of
  magnitude \<open>2 ^ 1024\<close> or more, which a double rounds to infinity, are not modelled.
  Lemma \<open>round64_eqI\<close> computes the function: \<open>round64 x = k / 2 ^ N\<close> when \<open>k\<close> is the integer
  nearest to \<open>x * 2 ^ N\<close> (even at a tie) and has 53 bits, or fewer and \<open>N = 1074\<close>.
\<close>

definition rne :: "real \<Rightarrow> int" where
  "rne y =
     (let f = \<lfloor>y\<rfloor>; r = y - of_int f
      in if r < 1 / 2 then f else if r > 1 / 2 then f + 1 else if even f then f else f + 1)"

definition binade :: "real \<Rightarrow> int" where
  "binade x = max \<lfloor>log 2 \<bar>x\<bar>\<rfloor> (- 1022)"

definition ulp64 :: "real \<Rightarrow> real" where
  "ulp64 x = 2 powi (binade x - 52)"

definition round64 :: "real \<Rightarrow> real" where
  "round64 x = (if x = 0 then 0 else ulp64 x * of_int (rne (x / ulp64 x)))"

text \<open>The four arithmetic operators of JavaScript on doubles.\<close>

definition fadd :: "real \<Rightarrow> real \<Rightarrow> real" where
  "fadd a b = round64 (a + b)"

definition fsub :: "real \<Rightarrow> real \<Rightarrow> real" where
  "fsub a b = round64 (a - b)"

definition fmul :: "real \<Rightarrow> real \<Rightarrow> real" where
  "fmul a b = round64 (a * b)"

definition fdiv :: "real \<Rightarrow> real \<Rightarrow> real" where
  "fdiv a b = round64 (a / b)"

section \<open>TruckController on doubles\<close>

text \<open>
  The constructor and \<open>update\<close> once more, operator by operator as the source has them,
  each result rounded. The record is the same; its number fields now hold doubles, and
  the literals are the doubles nearest to them. \<open>Math.max\<close>, \<open>Math.min\<close>, \<open>Math.abs\<close>, the
  unary minus and the comparisons are exact on doubles. The increment of the heading is
  \<open>this.turnSpeed * Math.abs (this.speed) / this.maxSpeed * turnDirection\<close>, evaluated
  from left to right: a product, a quotient and a product, each rounded.
  ECMAScript leaves the values of \<open>Math.sin\<close> and \<open>Math.cos\<close> to the implementation; they
  are the parameters \<open>sin64\<close> and \<open>cos64\<close> of \<open>update64\<close>. The listeners are those of the
  first embedding: they assign booleans only.
\<close>

definition new_TruckController64 :: truck_controller where
  "new_TruckController64 =
     \<lparr>position = Vector3 0 0 0,
      velocity = Vector3 0 0 0,
      rotation = 0,
      speed = 0,
      maxSpeed = round64 0.5,
      acceleration = round64 0.01,
      braking = round64 0.02,
      friction = round64 0.98,
      turnSpeed = round64 0.03,
      controls = no_controls\<rparr>"

definition update_speed64 :: "truck_controller \<Rightarrow> truck_controller" where
  "update_speed64 s =
     (let s1 = (if gas (controls s) then s\<lparr>speed := fadd (speed s) (acceleration s)\<rparr>
                else if brake (controls s) then s\<lparr>speed := fsub (speed s) (braking s)\<rparr>
                else s\<lparr>speed := fmul (speed s) (friction s)\<rparr>)
      in s1\<lparr>speed := clamp (speed s1) (fmul (- maxSpeed s1) (round64 0.5)) (maxSpeed s1)\<rparr>)"

definition update_rotation64 :: "truck_controller \<Rightarrow> truck_controller" where
  "update_rotation64 s =
     (if \<bar>speed s\<bar> > round64 0.01 then
        (let turnDirection = (if speed s > 0 then 1 else - 1);
             s1 = (if left (controls s)
                   then s\<lparr>rotation := fadd (rotation s)
                          (fmul (fdiv (fmul (turnSpeed s) \<bar>speed s\<bar>) (maxSpeed s)) turnDirection)\<rparr>
                   else s);
             s2 = (if right (controls s1)
                   then s1\<lparr>rotation := fsub (rotation s1)
                          (fmul (fdiv (fmul (turnSpeed s1) \<bar>speed s1\<bar>) (maxSpeed s1)) turnDirection)\<rparr>
                   else s1)
         in s2)
      else s)"

definition update_position64 ::
  "(real \<Rightarrow> real) \<Rightarrow> (real \<Rightarrow> real) \<Rightarrow> truck_controller \<Rightarrow> truck_controller" where
  "update_position64 sin64 cos64 s =
     (let v = (velocity s)\<lparr>vec_x := fmul (sin64 (rotation s)) (speed s),
                              vec_z := fmul (cos64 (rotation s)) (speed s)\<rparr>;
          p = \<lparr>vec_x = fadd (vec_x (position s)) (vec_x v),
               vec_y = fadd (vec_y (position s)) (vec_y v),
               vec_z = fadd (vec_z (position s)) (vec_z v)\<rparr>
      in s\<lparr>velocity := v, position := p\<lparr>vec_x := clamp (vec_x p) (- 3) 3\<rparr>\<rparr>)"

definition update64 ::
  "(real \<Rightarrow> real) \<Rightarrow> (real \<Rightarrow> real) \<Rightarrow> real \<Rightarrow> truck_controller \<Rightarrow> truck_controller" where
  "update64 sin64 cos64 deltaTime s =
     update_position64 sin64 cos64 (update_rotation64 (update_speed64 s))"

text \<open>\<open>ticks64 sin64 cos64 n dt s\<close>: \<open>n\<close> successive calls of \<open>update (dt)\<close> on doubles.\<close>

primrec ticks64 ::
  "(real \<Rightarrow> real) \<Rightarrow> (real \<Rightarrow> real) \<Rightarrow> nat \<Rightarrow> real \<Rightarrow> truck_controller \<Rightarrow> truck_controller" where
  "ticks64 sin64 cos64 0 dt s = s"
| "ticks64 sin64 cos64 (Suc n) dt s = update64 sin64 cos64 dt (ticks64 sin64 cos64 n dt s)"

text \<open>
  \<open>configured64\<close>: the five tuning fields hold the doubles of the constructor's literals.
  \<open>turn_increment64 s\<close>: the value the turning block adds to the heading for left and
  subtracts from it for right, in a state \<open>s\<close> whose speed the speed block has computed.
\<close>

definition configured64 :: "truck_controller \<Rightarrow> bool" where
  "configured64 s \<longleftrightarrow>
     maxSpeed s = round64 0.5 \<and> acceleration s = round64 0.01 \<and> braking s = round64 0.02 \<and>
     friction s = round64 0.98 \<and> turnSpeed s = round64 0.03"

definition turn_increment64 :: "truck_controller \<Rightarrow> real" where
  "turn_increment64 s =
     fmul (fdiv (fmul (turnSpeed s) \<bar>speed s\<bar>) (maxSpeed s)) (if speed s > 0 then 1 else - 1)"

text \<open>
  \<open>gas_speeds64 ! n\<close> is the speed after \<open>n\<close> updates from rest with the gas flag set, for
  \<open>n\<close> up to 50, as an exact fraction. Lemma \<open>gas_speeds64_step\<close> proves each entry from the
  one before it, and lemma \<open>gas_table_nth\<close> that the entries are the speeds.
  \<open>close_to_hundredths i vs\<close>: the \<open>k\<close>-th element of \<open>vs\<close> is within \<open>2 ^ -51\<close> of
  \<open>(i + k) * 0.01\<close>.
\<close>

definition gas_speeds64 :: "real list" where
  "gas_speeds64 =
     [0,
      5764607523034235 / 576460752303423488,
      5764607523034235 / 288230376151711744,
      1080863910568919 / 36028797018963968,
      5764607523034235 / 144115188075855872,
      3602879701896397 / 72057594037927936,
      8646911284551353 / 144115188075855872,
      1261007895663739 / 18014398509481984,
      5764607523034235 / 72057594037927936,
      3242591731706757 / 36028797018963968,
      7205759403792793 / 72057594037927936,
      990791918021509 / 9007199254740992,
      8646911284551351 / 72057594037927936,
      4683743612465315 / 36028797018963968,
      5044031582654955 / 36028797018963968,
      5404319552844595 / 36028797018963968,
      5764607523034235 / 36028797018963968,
      6124895493223875 / 36028797018963968,
      6485183463413515 / 36028797018963968,
      6845471433603155 / 36028797018963968,
      7205759403792795 / 36028797018963968,
      7566047373982435 / 36028797018963968,
      7926335344172075 / 36028797018963968,
      8286623314361715 / 36028797018963968,
      8646911284551355 / 36028797018963968,
      4503599627370497 / 18014398509481984,
      4683743612465317 / 18014398509481984,
      4863887597560137 / 18014398509481984,
      5044031582654957 / 18014398509481984,
      5224175567749777 / 18014398509481984,
      5404319552844597 / 18014398509481984,
      5584463537939417 / 18014398509481984,
      5764607523034237 / 18014398509481984,
      5944751508129057 / 18014398509481984,
      6124895493223877 / 18014398509481984,
      6305039478318697 / 18014398509481984,
      6485183463413517 / 18014398509481984,
      6665327448508337 / 18014398509481984,
      6845471433603157 / 18014398509481984,
      7025615418697977 / 18014398509481984,
      7205759403792797 / 18014398509481984,
      7385903388887617 / 18014398509481984,
      7566047373982437 / 18014398509481984,
      7746191359077257 / 18014398509481984,
      7926335344172077 / 18014398509481984,
      8106479329266897 / 18014398509481984,
      8286623314361717 / 18014398509481984,
      8466767299456537 / 18014398509481984,
      8646911284551357 / 18014398509481984,
      8827055269646177 / 18014398509481984,
      1 / 2]"

primrec close_to_hundredths :: "nat \<Rightarrow> real list \<Rightarrow> bool" where
  "close_to_hundredths i [] = True"
| "close_to_hundredths i (v # vs) =
     (\<bar>v - real i * 0.01\<bar> \<le> 1 / 2 ^ 51 \<and> close_to_hundredths (Suc i) vs)"

section \<open>What each block of update leaves unchanged\<close>

lemma update_speed_frame [simp]:
  "maxSpeed (update_speed s) = maxSpeed s" "acceleration (update_speed s) = acceleration s"
  "braking (update_speed s) = braking s" "friction (update_speed s) = friction s"
  "turnSpeed (update_speed s) = turnSpeed s" "controls (update_speed s) = controls s"
  "position (update_speed s) = position s" "velocity (update_speed s) = velocity s"
  "rotation (update_speed s) = rotation s"
  by (simp_all add: update_speed_def Let_def)

lemma update_rotation_frame [simp]:
  "maxSpeed (update_rotation s) = maxSpeed s" "acceleration (update_rotation s) = acceleration s"
  "braking (update_rotation s) = braking s" "friction (update_rotation s) = friction s"
  "turnSpeed (update_rotation s) = turnSpeed s" "controls (update_rotation s) = controls s"
  "position (update_rotation s) = position s" "velocity (update_rotation s) = velocity s"
  "speed (update_rotation s) = speed s"
  by (simp_all add: update_rotation_def Let_def)

lemma update_position_frame [simp]:
  "maxSpeed (update_position s) = maxSpeed s" "acceleration (update_position s) = acceleration s"
  "braking (update_position s) = braking s" "friction (update_position s) = friction s"
  "turnSpeed (update_position s) = turnSpeed s" "controls (update_position s) = controls s"
  "rotation (update_position s) = rotation s" "speed (update_position s) = speed s"
  by (simp_all add: update_position_def Let_def)

lemma update_frame [simp]:
  "maxSpeed (update dt s) = maxSpeed s" "acceleration (update dt s) = acceleration s"
  "braking (update dt s) = braking s" "friction (update dt s) = friction s"
  "turnSpeed (update dt s) = turnSpeed s" "controls (update dt s) = controls s"
  "speed (update dt s) = speed (update_speed s)"
  by (simp_all add: update_def)

lemma ticks_frame [simp]:
  "maxSpeed (ticks n dt s) = maxSpeed s" "acceleration (ticks n dt s) = acceleration s"
  "braking (ticks n dt s) = braking s" "friction (ticks n dt s) = friction s"
  "turnSpeed (ticks n dt s) = turnSpeed s" "controls (ticks n dt s) = controls s"
  by (induction n) simp_all


lemma run_snoc: "run (acts @ [a]) = step a (run acts)"
  by (simp add: run_def run_from_def)

lemma button_listener_eq:
  "button_listener c e s = s\<lparr>controls := set_control c (e = TouchStart \<or> e = MouseDown) (controls s)\<rparr>"
  by (cases e) simp_all

section \<open>The tuning fields are constant\<close>

lemma configured_step: "configured s \<Longrightarrow> configured (step a s)"
  by (cases a) (auto simp: configured_def update_def keydown_def keyup_def reset_def Let_def button_listener_eq)

lemma configured_run_from: "configured s \<Longrightarrow> configured (run_from s acts)"
  unfolding run_from_def by (induction acts arbitrary: s) (simp_all add: configured_step)

lemma configured_new: "configured new_TruckController"
  by (simp add: configured_def new_TruckController_def)

lemma configured_run: "configured (run acts)"
  by (simp add: run_def configured_run_from configured_new)

section \<open>Speed after one and after many updates\<close>

lemma update_speed_range:
  assumes "0 \<le> maxSpeed s"
  shows "- maxSpeed s * 0.5 \<le> speed (update_speed s)" and "speed (update_speed s) \<le> maxSpeed s"
  using assms by (simp_all add: update_speed_def Let_def clamp_def)

lemma speed_ok_step: "configured s \<Longrightarrow> speed_ok s \<Longrightarrow> speed_ok (step a s)"
proof (cases a)
  case (Update dt)
  assume "configured s"
  then have "0 \<le> maxSpeed s" by (simp add: configured_def)
  then show ?thesis using Update update_speed_range [of s] by (simp add: speed_ok_def)
next
  case Reset
  assume "configured s"
  then show ?thesis using Reset by (simp add: speed_ok_def reset_def configured_def)
qed (simp_all add: speed_ok_def keydown_def keyup_def Let_def button_listener_eq)

lemma speed_ok_run_from:
  "configured s \<Longrightarrow> speed_ok s \<Longrightarrow> speed_ok (run_from s acts)"
  unfolding run_from_def
  by (induction acts arbitrary: s) (simp_all add: configured_step speed_ok_step)

lemma speed_ok_run: "speed_ok (run acts)"
  unfolding run_def
  by (rule speed_ok_run_from) (simp_all add: configured_new, simp add: speed_ok_def new_TruckController_def)

lemma configuredD:
  assumes "configured s"
  shows "maxSpeed s = 1 / 2" "acceleration s = 1 / 100" "braking s = 1 / 50"
    "friction s = 49 / 50" "turnSpeed s = 3 / 100"
  using assms by (simp_all add: configured_def)

lemma configured_ticks: "configured s \<Longrightarrow> configured (ticks n dt s)"
  by (simp add: configured_def)

lemma brake_tick:
  assumes "configured s" "brake (controls s)" "\<not> gas (controls s)" "speed s \<le> 1 / 2"
  shows "speed (update_speed s) = max (- (1 / 4)) (speed s - 1 / 50)"
proof -
  have "min (1 / 2) (speed s - 1 / 50) = speed s - 1 / 50" using assms(4) by simp
  then show ?thesis
    using assms(2,3) by (simp add: update_speed_def Let_def clamp_def configuredD [OF assms(1)])
qed

lemma brake_ticks:
  assumes "configured s" "brake (controls s)" "\<not> gas (controls s)"
    "speed s \<le> 1 / 2" "- (1 / 4) \<le> speed s"
  shows "speed (ticks n dt s) = max (- (1 / 4)) (speed s - real n * (1 / 50))"
proof (induction n)
  case 0
  from assms show ?case by simp
next
  case (Suc n)
  have c: "configured (ticks n dt s)" using assms(1) by (rule configured_ticks)
  have le: "speed (ticks n dt s) \<le> 1 / 2" unfolding Suc using assms(4) by (auto simp: max_def)
  have "speed (ticks (Suc n) dt s) = max (- (1 / 4)) (speed (ticks n dt s) - 1 / 50)"
    using brake_tick [OF c _ _ le] assms(2,3) by simp
  also have "\<dots> = max (- (1 / 4)) (speed s - real (Suc n) * (1 / 50))"
    unfolding Suc by (auto simp: max_def field_simps)
  finally show ?case .
qed


section \<open>Speed limits\<close>

text \<open>
  Claim C1. In every state a controller can reach (any history of key and button events,
  updates and resets), and so after each \<open>update\<close>, the speed lies in
  \<open>[-maxSpeed * 0.5, maxSpeed]\<close>; the same holds after one \<open>update\<close> from any state
  whatever whose \<open>maxSpeed\<close> is not negative. With only the brake held from rest, the speed
  after \<open>n\<close> updates is \<open>max (-maxSpeed * 0.5) (-n * braking)\<close>: it goes down from one update
  to the next, never below \<open>-maxSpeed * 0.5\<close>, and stays there from the 13th update on.
\<close>

theorem speed_within_limits:
  "(- maxSpeed (run acts) * 0.5 \<le> speed (run acts) \<and> speed (run acts) \<le> maxSpeed (run acts)) \<and>
   (0 \<le> maxSpeed s \<longrightarrow>
      - maxSpeed (update dt s) * 0.5 \<le> speed (update dt s) \<and>
      speed (update dt s) \<le> maxSpeed (update dt s)) \<and>
   (configured s \<and> speed s = 0 \<and> brake (controls s) \<and> \<not> gas (controls s) \<longrightarrow>
      speed (ticks n dt s) = max (- maxSpeed s * 0.5) (- (real n * braking s)) \<and>
      - maxSpeed s * 0.5 \<le> speed (ticks n dt s) \<and>
      speed (ticks (Suc n) dt s) \<le> speed (ticks n dt s) \<and>
      (13 \<le> n \<longrightarrow> speed (ticks n dt s) = - maxSpeed s * 0.5))"
proof (intro conjI impI)
  show "- maxSpeed (run acts) * 0.5 \<le> speed (run acts)" "speed (run acts) \<le> maxSpeed (run acts)"
    using speed_ok_run [of acts] by (simp_all add: speed_ok_def)
next
  assume "0 \<le> maxSpeed s"
  then show "- maxSpeed (update dt s) * 0.5 \<le> speed (update dt s)"
    "speed (update dt s) \<le> maxSpeed (update dt s)"
    using update_speed_range [of s] by simp_all
next
  assume a: "configured s \<and> speed s = 0 \<and> brake (controls s) \<and> \<not> gas (controls s)"
  then have c: "configured s" by simp
  have cl: "\<And>k. speed (ticks k dt s) = max (- (1 / 4)) (- (real k * (1 / 50)))"
    using brake_ticks [of s _ dt] a by simp
  show "speed (ticks n dt s) = max (- maxSpeed s * 0.5) (- (real n * braking s))"
    by (simp add: cl configuredD [OF c])
  show "- maxSpeed s * 0.5 \<le> speed (ticks n dt s)"
    by (simp add: cl configuredD [OF c])
  show "speed (ticks (Suc n) dt s) \<le> speed (ticks n dt s)"
    unfolding cl by (auto simp: max_def field_simps)
  show "speed (ticks n dt s) = - maxSpeed s * 0.5" if "13 \<le> n"
  proof -
    from that have "13 \<le> real n" by simp
    then show ?thesis unfolding cl by (simp add: configuredD [OF c] max_def)
  qed
qed

text \<open>
  The theorem at a history with the down arrow held for two updates, at a state with an
  out-of-range speed, and at the state reached by pressing S at rest.
\<close>

theorem speed_within_limits_witness:
  "speed (run [KeyDown ''ArrowDown'' ''ArrowDown'', Update (1 / 60), Update (1 / 60)]) = - 0.04 \<and>
   (0::real) \<le> maxSpeed new_TruckController \<and>
   speed (update 0 (new_TruckController\<lparr>speed := 7\<rparr>)) \<le> 0.5 \<and>
   configured (keydown ''s'' ''KeyS'' new_TruckController) \<and>
   speed (keydown ''s'' ''KeyS'' new_TruckController) = 0 \<and>
   brake (controls (keydown ''s'' ''KeyS'' new_TruckController)) \<and>
   \<not> gas (controls (keydown ''s'' ''KeyS'' new_TruckController)) \<and>
   speed (ticks 12 (1 / 60) (keydown ''s'' ''KeyS'' new_TruckController)) = - 0.24 \<and>
   speed (ticks 13 (1 / 60) (keydown ''s'' ''KeyS'' new_TruckController)) = - 0.25 \<and>
   speed (ticks 20 (1 / 60) (keydown ''s'' ''KeyS'' new_TruckController)) = - 0.25"
proof -
  let ?s = "keydown ''s'' ''KeyS'' new_TruckController"
  let ?acts = "[KeyDown ''ArrowDown'' ''ArrowDown'', Update (1 / 60), Update (1 / 60)]"
  have h: "configured ?s \<and> speed ?s = 0 \<and> brake (controls ?s) \<and> \<not> gas (controls ?s)"
    by (simp add: configured_def keydown_def toLowerCase_def new_TruckController_def no_controls_def)
  have r: "speed (run ?acts) = - 0.04"
    by (simp add: run_def run_from_def keydown_def toLowerCase_def lower_char_def
        new_TruckController_def no_controls_def update_speed_def clamp_def Let_def)
  have m: "(0::real) \<le> maxSpeed new_TruckController" "maxSpeed (new_TruckController\<lparr>speed := 7\<rparr>) = 0.5"
    by (simp_all add: new_TruckController_def)
  show ?thesis
    using h r m
      speed_within_limits [where acts = ?acts and s = "new_TruckController\<lparr>speed := 7\<rparr>" and dt = 0 and n = 12]
      speed_within_limits [where acts = ?acts and s = ?s and dt = "1 / 60" and n = 12]
      speed_within_limits [where acts = ?acts and s = ?s and dt = "1 / 60" and n = 13]
      speed_within_limits [where acts = ?acts and s = ?s and dt = "1 / 60" and n = 20]
    by (simp add: configuredD)
qed

section \<open>Coasting\<close>










section \<open>The time step\<close>

lemma rotation_update [simp]: "rotation (update dt s) = rotation (update_rotation (update_speed s))"
  by (simp add: update_def)

text \<open>
  Claim C3 says that \<open>update (0)\<close> changes nothing. It does not hold: pressing W at rest and
  calling \<open>update (0)\<close> takes the speed from \<open>0\<close> to \<open>0.01\<close> and moves the truck by \<open>0.01\<close>
  along z.
\<close>

theorem update_zero_changes_state:
  "speed (keydown ''w'' ''KeyW'' new_TruckController) = 0 \<and>
   speed (update 0 (keydown ''w'' ''KeyW'' new_TruckController)) = 0.01 \<and>
   vec_z (position (keydown ''w'' ''KeyW'' new_TruckController)) = 0 \<and>
   vec_z (position (update 0 (keydown ''w'' ''KeyW'' new_TruckController))) = 0.01 \<and>
   vec_z (velocity (keydown ''w'' ''KeyW'' new_TruckController)) = 0 \<and>
   vec_z (velocity (update 0 (keydown ''w'' ''KeyW'' new_TruckController))) = 0.01"
  by (simp add: keydown_def toLowerCase_def new_TruckController_def no_controls_def Vector3_def
      update_def update_speed_def update_rotation_def update_position_def clamp_def Let_def
      vec_add_def)

text \<open>
  Claim C3, amended. \<open>update\<close> never reads its argument: \<open>update (0)\<close> is the same full tick
  as \<open>update (dt)\<close> for every \<open>dt\<close>. It leaves the whole state unchanged when the truck is at
  rest (speed and velocity zero, \<open>position.x\<close> within the lane) and neither gas nor brake is
  set.
\<close>

theorem update_ignores_deltaTime:
  "update dt s = update 0 s \<and>
   (speed s = 0 \<and> \<not> gas (controls s) \<and> \<not> brake (controls s) \<and> 0 \<le> maxSpeed s \<and>
    velocity s = Vector3 0 0 0 \<and> - 3 \<le> vec_x (position s) \<and> vec_x (position s) \<le> 3 \<longrightarrow>
      update 0 s = s)"
proof
  show "update dt s = update 0 s" by (simp add: update_def)
next
  show "speed s = 0 \<and> \<not> gas (controls s) \<and> \<not> brake (controls s) \<and> 0 \<le> maxSpeed s \<and>
    velocity s = Vector3 0 0 0 \<and> - 3 \<le> vec_x (position s) \<and> vec_x (position s) \<le> 3 \<longrightarrow>
      update 0 s = s"
  proof
    assume a: "speed s = 0 \<and> \<not> gas (controls s) \<and> \<not> brake (controls s) \<and> 0 \<le> maxSpeed s \<and>
      velocity s = Vector3 0 0 0 \<and> - 3 \<le> vec_x (position s) \<and> vec_x (position s) \<le> 3"
    then have 1: "update_speed s = s"
      by (simp add: update_speed_def Let_def clamp_def)
    from a have 2: "update_rotation s = s"
      by (simp add: update_rotation_def)
    from a have 3: "update_position s = s"
      by (simp add: update_position_def Let_def clamp_def vec_add_def Vector3_def)
    show "update 0 s = s" by (simp add: update_def 1 2 3)
  qed
qed

text \<open>The theorem at the constructor's state.\<close>

theorem update_ignores_deltaTime_witness:
  "update (1 / 60) new_TruckController = update 0 new_TruckController \<and>
   speed new_TruckController = 0 \<and> \<not> gas (controls new_TruckController) \<and>
   \<not> brake (controls new_TruckController) \<and> 0 \<le> maxSpeed new_TruckController \<and>
   velocity new_TruckController = Vector3 0 0 0 \<and>
   - 3 \<le> vec_x (position new_TruckController) \<and> vec_x (position new_TruckController) \<le> 3 \<and>
   update 0 new_TruckController = new_TruckController"
proof -
  have h: "speed new_TruckController = 0 \<and> \<not> gas (controls new_TruckController) \<and>
    \<not> brake (controls new_TruckController) \<and> 0 \<le> maxSpeed new_TruckController \<and>
    velocity new_TruckController = Vector3 0 0 0 \<and>
    - 3 \<le> vec_x (position new_TruckController) \<and> vec_x (position new_TruckController) \<le> 3"
    by (simp add: new_TruckController_def no_controls_def Vector3_def)
  from update_ignores_deltaTime [of "1 / 60" new_TruckController] h show ?thesis by blast
qed

section \<open>The input latch\<close>

lemma get_set_control [simp]:
  "get_control n (set_control m b c) = (if m = n then b else get_control n c)"
  by (cases m; cases n) simp_all

lemma controls_keydown:
  "controls (keydown ekey code s) =
     (case key_binding ekey code of Some m \<Rightarrow> set_control m True (controls s) | None \<Rightarrow> controls s)"
  by (simp add: keydown_def key_binding_def Let_def)

lemma controls_keyup:
  "controls (keyup ekey code s) =
     (case key_binding ekey code of Some m \<Rightarrow> set_control m False (controls s) | None \<Rightarrow> controls s)"
  by (simp add: keyup_def key_binding_def Let_def)

lemma get_control_step:
  "get_control n (controls (step a s)) =
     (case writes a n of Some b \<Rightarrow> b | None \<Rightarrow> get_control n (controls s))"
proof (cases a)
  case (KeyDown ekey code)
  then show ?thesis by (simp add: controls_keydown split: option.splits)
next
  case (KeyUp ekey code)
  then show ?thesis by (simp add: controls_keyup split: option.splits)
next
  case (Button m ev)
  then show ?thesis by (simp add: button_listener_eq)
next
  case (Update dt)
  then show ?thesis by simp
next
  case Reset
  then show ?thesis by (cases n) (simp_all add: reset_def no_controls_def)
qed

lemma get_control_new: "get_control n (controls new_TruckController) = False"
  by (cases n) (simp_all add: new_TruckController_def no_controls_def)

lemma get_control_run: "get_control n (controls (run acts)) = last_write n acts"
proof (induction acts rule: rev_induct)
  case Nil
  show ?case by (simp add: last_write_def run_def run_from_def get_control_new)
next
  case (snoc a acts)
  have "get_control n (controls (run (acts @ [a]))) =
      (case writes a n of Some b \<Rightarrow> b | None \<Rightarrow> last_write n acts)"
    by (simp only: run_snoc get_control_step snoc)
  then show ?case by (simp add: last_write_def split: option.splits)
qed

text \<open>
  Claim C2 says that a flag is set if and only if one of its sources is active, so that a
  flag held by two sources stays set when one of them is released. It does not hold: with
  W held, touching and releasing the on-screen gas button leaves the W key active and the
  gas flag cleared.
\<close>

theorem release_clears_shared_flag:
  "active_sources [KeyDown ''w'' ''KeyW'', Button GasName TouchStart, Button GasName TouchEnd] =
     [KeySource ''w'' ''KeyW''] \<and>
   bound_intent (KeySource ''w'' ''KeyW'') = Some GasName \<and>
   intent_has_active_source GasName
     [KeyDown ''w'' ''KeyW'', Button GasName TouchStart, Button GasName TouchEnd] \<and>
   \<not> get_control GasName
     (controls (run [KeyDown ''w'' ''KeyW'', Button GasName TouchStart, Button GasName TouchEnd])) \<and>
   \<not> intent_tracks_sources
     [KeyDown ''w'' ''KeyW'', Button GasName TouchStart, Button GasName TouchEnd] GasName"
  by (simp add: intent_tracks_sources_def intent_has_active_source_def active_sources_def
      key_binding_def toLowerCase_def run_def run_from_def keydown_def new_TruckController_def
      no_controls_def)

text \<open>
  Claim C2, amended. Each flag is one boolean shared by all its sources. After any history
  it holds the value of the last assignment made to it: \<open>True\<close> by a press event bound to it
  (keydown, touchstart, mousedown), \<open>False\<close> by a release event bound to it (keyup,
  touchend, mouseup, mouseleave) or by \<open>reset\<close>, and \<open>False\<close> if nothing has assigned it.
  Every event bound to the flag overwrites it whatever the other sources are doing, and no
  other event changes it.
\<close>

theorem intent_is_last_write:
  "get_control n (controls (run acts)) = last_write n acts \<and>
   (writes a n = Some b \<longrightarrow> get_control n (controls (run (acts @ [a]))) = b) \<and>
   (writes a n = None \<longrightarrow>
      get_control n (controls (run (acts @ [a]))) = get_control n (controls (run acts)))"
  by (simp add: get_control_run [symmetric] run_snoc get_control_step)

text \<open>
  The theorem at the history above, where the release of the button clears the flag that W
  still holds, and at an \<open>update\<close>, which leaves the flag alone.
\<close>

theorem intent_is_last_write_witness:
  "writes (Button GasName TouchEnd) GasName = Some False \<and>
   \<not> get_control GasName
     (controls (run ([KeyDown ''w'' ''KeyW'', Button GasName TouchStart] @ [Button GasName TouchEnd]))) \<and>
   writes (Update 0) GasName = None \<and>
   get_control GasName (controls (run ([KeyDown ''w'' ''KeyW''] @ [Update 0]))) \<and>
   last_write GasName [KeyDown ''w'' ''KeyW''] \<and>
   \<not> last_write GasName [KeyDown ''w'' ''KeyW'', Button GasName TouchStart, Button GasName TouchEnd]"
proof -
  have w: "writes (Button GasName TouchEnd) GasName = Some False" "writes (Update 0) GasName = None"
    by simp_all
  have l: "last_write GasName [KeyDown ''w'' ''KeyW'']"
    "\<not> last_write GasName [KeyDown ''w'' ''KeyW'', Button GasName TouchStart, Button GasName TouchEnd]"
    by (simp_all add: last_write_def key_binding_def)
  show ?thesis
    using w l
      intent_is_last_write [of GasName "[KeyDown ''w'' ''KeyW'', Button GasName TouchStart]"
        "Button GasName TouchEnd" False]
      intent_is_last_write [of GasName "[KeyDown ''w'' ''KeyW'']" "Update 0" True]
    by simp
qed

section \<open>The ground plane\<close>

lemma update_y:
  "vec_y (velocity (update dt s)) = vec_y (velocity s)"
  "vec_y (position (update dt s)) = vec_y (position s) + vec_y (velocity s)"
  by (simp_all add: update_def update_position_def Let_def vec_add_def)

lemma grounded_step: "grounded s \<Longrightarrow> grounded (step a s)"
  by (cases a)
    (simp_all add: grounded_def update_y keydown_def keyup_def Let_def button_listener_eq
      reset_def Vector3_def)

lemma grounded_run_from: "grounded s \<Longrightarrow> grounded (run_from s acts)"
  unfolding run_from_def by (induction acts arbitrary: s) (simp_all add: grounded_step)

lemma grounded_new: "grounded new_TruckController"
  by (simp add: grounded_def new_TruckController_def Vector3_def)

lemma grounded_run: "grounded (run acts)"
  by (simp add: run_def grounded_run_from grounded_new)

text \<open>
  Claim C10. \<open>position.y\<close> and \<open>velocity.y\<close> are zero at construction, in every state a
  history leads to, and after an \<open>update\<close> or a \<open>reset\<close> called there: \<open>update\<close> writes only
  the x and z components of the velocity before adding it to the position.
\<close>

theorem stays_on_ground_plane:
  "vec_y (position new_TruckController) = 0 \<and> vec_y (velocity new_TruckController) = 0 \<and>
   vec_y (position (run acts)) = 0 \<and> vec_y (velocity (run acts)) = 0 \<and>
   vec_y (position (update dt (run acts))) = 0 \<and> vec_y (velocity (update dt (run acts))) = 0 \<and>
   vec_y (position (reset (run acts))) = 0 \<and> vec_y (velocity (reset (run acts))) = 0"
proof -
  have "grounded (run (acts @ [Update dt]))" "grounded (run (acts @ [Reset]))"
    by (rule grounded_run)+
  then have "grounded (update dt (run acts))" "grounded (reset (run acts))"
    by (simp_all add: run_snoc)
  with grounded_run [of acts] grounded_new show ?thesis
    by (simp add: grounded_def)
qed

section \<open>Lane clamp\<close>

text \<open>
  Claim C5. After every \<open>update\<close>, from any state and with any controls, \<open>position.x\<close>
  lies in \<open>[-3, 3]\<close>: the clamp is the last write to it.
\<close>

theorem position_x_in_lane:
  "- 3 \<le> vec_x (position (update dt s)) \<and> vec_x (position (update dt s)) \<le> 3"
  by (simp add: update_def update_position_def Let_def clamp_def)

section \<open>The camera follows its target\<close>




section \<open>The vertical angle of the camera\<close>

lemma camera_configured_step: "camera_configured s \<Longrightarrow> camera_configured (camera_step a s)"
  by (cases a)
    (simp_all add: camera_configured_def canvas_mousedown_def canvas_mousemove_def
      window_mouseup_def canvas_touchstart_def canvas_touchmove_def canvas_touchend_def
      canvas_wheel_def camera_update_def camera_reset_def Let_def)

lemma pi_third_bounds: "3 / 10 \<le> pi / 3" "1 / 10 \<le> pi / 3"
  using pi_ge_two by simp_all

lemma mousemove_angleV:
  assumes "isRotating s"
  shows "angleV (canvas_mousemove clientX clientY s) =
    max (minAngleV s) (min (maxAngleV s) (angleV s + (clientY - lastY s) * sensitivity s))"
    and "minAngleV (canvas_mousemove clientX clientY s) = minAngleV s"
    and "maxAngleV (canvas_mousemove clientX clientY s) = maxAngleV s"
  using assms by (simp_all add: canvas_mousemove_def Let_def)

lemma touchmove_angleV:
  assumes "isTouchRotating s" "length touches = 2"
  shows "angleV (canvas_touchmove touches s) =
    max (minAngleV s) (min (maxAngleV s) (angleV s + (snd (touches ! 0) - touchStartY s) * sensitivity s))"
    and "minAngleV (canvas_touchmove touches s) = minAngleV s"
    and "maxAngleV (canvas_touchmove touches s) = maxAngleV s"
  using assms by (simp_all add: canvas_touchmove_def Let_def)

lemma angleV_ok_step:
  assumes "camera_configured s" "angleV_ok s"
  shows "angleV_ok (camera_step a s)"
proof -
  have m: "minAngleV s \<le> maxAngleV s" using assms(2) by (simp add: angleV_ok_def)
  show ?thesis
  proof (cases a)
    case (CanvasMouseMove clientX clientY)
    show ?thesis
    proof (cases "isRotating s")
      case True
      then show ?thesis using CanvasMouseMove m by (simp add: angleV_ok_def mousemove_angleV)
    next
      case False
      then show ?thesis using CanvasMouseMove assms(2) by (simp add: canvas_mousemove_def)
    qed
  next
    case (CanvasTouchMove touches)
    show ?thesis
    proof (cases "isTouchRotating s \<and> length touches = 2")
      case True
      then show ?thesis using CanvasTouchMove m by (simp add: angleV_ok_def touchmove_angleV)
    next
      case False
      then show ?thesis using CanvasTouchMove assms(2) by (auto simp: canvas_touchmove_def)
    qed
  next
    case CameraReset
    then show ?thesis
      using assms(1) pi_third_bounds by (simp add: angleV_ok_def camera_reset_def camera_configured_def)
  qed (use assms(2) in \<open>simp_all add: angleV_ok_def canvas_mousedown_def window_mouseup_def
      canvas_touchstart_def canvas_touchend_def canvas_wheel_def camera_update_def Let_def\<close>)
qed

lemma camera_new_ok: "camera_configured (new_CameraController cam)" "angleV_ok (new_CameraController cam)"
  using pi_third_bounds by (simp_all add: camera_configured_def angleV_ok_def new_CameraController_def)

lemma camera_fold_ok:
  "camera_configured s \<Longrightarrow> angleV_ok s \<Longrightarrow>
     camera_configured (fold camera_step acts s) \<and> angleV_ok (fold camera_step acts s)"
  by (induction acts arbitrary: s) (simp_all add: camera_configured_step angleV_ok_step)

lemma camera_run_ok: "camera_configured (camera_run cam acts)" "angleV_ok (camera_run cam acts)"
  using camera_fold_ok [OF camera_new_ok, where cam1 = cam and acts = acts]
  by (simp_all add: camera_run_def)

text \<open>
  Claim C7. In every state a camera controller can reach (any history of mouse, touch and
  wheel events, updates and resets) \<open>angleV\<close> lies in \<open>[minAngleV, maxAngleV]\<close>. A mouse move
  during a drag and a two-finger touch move during a touch drag set \<open>angleV\<close> to the clamped
  sum of the old angle and the scaled delta, so the result is within the limits whatever
  the delta; the initial value and the value \<open>reset\<close> assigns are \<open>0.3\<close>, within
  \<open>[0.1, pi / 3]\<close>.
\<close>

theorem angleV_within_limits:
  "(minAngleV (camera_run cam acts) \<le> angleV (camera_run cam acts) \<and>
    angleV (camera_run cam acts) \<le> maxAngleV (camera_run cam acts)) \<and>
   (isRotating s \<and> minAngleV s \<le> maxAngleV s \<longrightarrow>
      angleV (canvas_mousemove clientX clientY s) =
        max (minAngleV s) (min (maxAngleV s) (angleV s + (clientY - lastY s) * sensitivity s)) \<and>
      angleV_ok (canvas_mousemove clientX clientY s)) \<and>
   (isTouchRotating s \<and> length touches = 2 \<and> minAngleV s \<le> maxAngleV s \<longrightarrow>
      angleV (canvas_touchmove touches s) =
        max (minAngleV s) (min (maxAngleV s)
          (angleV s + (snd (touches ! 0) - touchStartY s) * sensitivity s)) \<and>
      angleV_ok (canvas_touchmove touches s)) \<and>
   angleV (new_CameraController cam) = 0.3 \<and> angleV_ok (new_CameraController cam) \<and>
   (camera_configured s \<longrightarrow> angleV (camera_reset s) = 0.3 \<and> angleV_ok (camera_reset s))"
proof (intro conjI impI)
  show "minAngleV (camera_run cam acts) \<le> angleV (camera_run cam acts)"
    "angleV (camera_run cam acts) \<le> maxAngleV (camera_run cam acts)"
    using camera_run_ok(2) [of cam acts] by (simp_all add: angleV_ok_def)
next
  assume a: "isRotating s \<and> minAngleV s \<le> maxAngleV s"
  then show "angleV (canvas_mousemove clientX clientY s) =
      max (minAngleV s) (min (maxAngleV s) (angleV s + (clientY - lastY s) * sensitivity s))"
    by (simp add: mousemove_angleV)
  from a show "angleV_ok (canvas_mousemove clientX clientY s)"
    by (simp add: angleV_ok_def mousemove_angleV)
next
  assume a: "isTouchRotating s \<and> length touches = 2 \<and> minAngleV s \<le> maxAngleV s"
  then show "angleV (canvas_touchmove touches s) =
      max (minAngleV s) (min (maxAngleV s)
        (angleV s + (snd (touches ! 0) - touchStartY s) * sensitivity s))"
    by (simp add: touchmove_angleV)
  from a show "angleV_ok (canvas_touchmove touches s)"
    by (simp add: angleV_ok_def touchmove_angleV)
next
  show "angleV (new_CameraController cam) = 0.3" by (simp add: new_CameraController_def)
  show "angleV_ok (new_CameraController cam)" by (rule camera_new_ok)
next
  assume "camera_configured s"
  then show "angleV_ok (camera_reset s)"
    using pi_third_bounds by (simp add: angleV_ok_def camera_reset_def camera_configured_def)
  show "angleV (camera_reset s) = 0.3" by (simp add: camera_reset_def)
qed

text \<open>
  The theorem at a right-button drag that overshoots the upper and the lower limit, at a
  two-finger drag that overshoots the upper limit, and at a reset.
\<close>

theorem angleV_within_limits_witness:
  "isRotating (canvas_mousedown 2 100 100 (new_CameraController (Vector3 0 8 (- 15)))) \<and>
   minAngleV (canvas_mousedown 2 100 100 (new_CameraController (Vector3 0 8 (- 15)))) \<le>
     maxAngleV (canvas_mousedown 2 100 100 (new_CameraController (Vector3 0 8 (- 15)))) \<and>
   angleV (canvas_mousemove 100 10100
     (canvas_mousedown 2 100 100 (new_CameraController (Vector3 0 8 (- 15))))) = pi / 3 \<and>
   angleV (canvas_mousemove 100 (- 9900)
     (canvas_mousedown 2 100 100 (new_CameraController (Vector3 0 8 (- 15))))) = 0.1 \<and>
   isTouchRotating (canvas_touchstart [(0, 0), (50, 50)] (new_CameraController (Vector3 0 8 (- 15)))) \<and>
   length [(0 :: real, 10000 :: real), (50, 50)] = 2 \<and>
   angleV (canvas_touchmove [(0, 10000), (50, 50)]
     (canvas_touchstart [(0, 0), (50, 50)] (new_CameraController (Vector3 0 8 (- 15))))) = pi / 3 \<and>
   camera_configured (canvas_mousedown 2 100 100 (new_CameraController (Vector3 0 8 (- 15)))) \<and>
   angleV_ok (camera_reset (canvas_mousedown 2 100 100 (new_CameraController (Vector3 0 8 (- 15)))))"
proof -
  let ?c = "new_CameraController (Vector3 0 8 (- 15))"
  let ?m = "canvas_mousedown 2 100 100 ?c"
  let ?t = "canvas_touchstart [(0, 0), (50, 50)] ?c"
  note defs = canvas_mousedown_def canvas_touchstart_def new_CameraController_def
  have hi: "pi / 3 \<le> 303 / 10" using pi_less_4 by simp
  have lo: "1 / 10 \<le> pi / 3" using pi_ge_two by simp
  have m: "isRotating ?m" "minAngleV ?m = 1 / 10" "maxAngleV ?m = pi / 3" "angleV ?m = 3 / 10"
    "lastY ?m = 100" "sensitivity ?m = 3 / 1000" "camera_configured ?m"
    by (simp_all add: defs camera_configured_def)
  have t: "isTouchRotating ?t" "minAngleV ?t = 1 / 10" "maxAngleV ?t = pi / 3" "angleV ?t = 3 / 10"
    "touchStartY ?t = 0" "sensitivity ?t = 3 / 1000"
    by (simp_all add: defs)
  have le: "minAngleV ?m \<le> maxAngleV ?m" "minAngleV ?t \<le> maxAngleV ?t"
    unfolding m t using lo by simp_all
  have 1: "angleV (canvas_mousemove 100 10100 ?m) = pi / 3"
    using angleV_within_limits [where s = ?m and clientX = 100 and clientY = 10100] m(1) le(1) hi lo
    by (simp add: m)
  have 2: "angleV (canvas_mousemove 100 (- 9900) ?m) = 0.1"
    using angleV_within_limits [where s = ?m and clientX = 100 and clientY = "- 9900"] m(1) le(1) hi lo
    by (simp add: m)
  have 3: "angleV (canvas_touchmove [(0, 10000), (50, 50)] ?t) = pi / 3"
    using angleV_within_limits [where s = ?t and touches = "[(0, 10000), (50, 50)]"] t(1) le(2) hi lo
    by (simp add: t)
  have 4: "angleV_ok (camera_reset ?m)"
    using angleV_within_limits [where s = ?m] m(7) by blast
  show ?thesis using m(1,7) t(1) le(1) 1 2 3 4 by simp
qed

section \<open>Rounding to the nearest double\<close>

lemma rne_eqI:
  assumes "\<bar>y - of_int k\<bar> < 1 / 2 \<or> (\<bar>y - of_int k\<bar> = 1 / 2 \<and> even k)"
  shows "rne y = k"
proof -
  consider (lo) "y < of_int k" | (hi) "of_int k \<le> y" by linarith
  then show ?thesis
  proof cases
    case hi
    then have f: "\<lfloor>y\<rfloor> = k" using assms by (intro floor_unique) (auto simp: abs_if split: if_splits)
    show ?thesis using assms hi by (auto simp: rne_def Let_def f abs_if split: if_splits)
  next
    case lo
    then have f: "\<lfloor>y\<rfloor> = k - 1" using assms by (intro floor_unique) (auto simp: abs_if split: if_splits)
    show ?thesis using assms lo by (auto simp: rne_def Let_def f abs_if split: if_splits)
  qed
qed

lemma rne_near:
  "\<bar>y - of_int (rne y)\<bar> < 1 / 2 \<or> (\<bar>y - of_int (rne y)\<bar> = 1 / 2 \<and> even (rne y))"
proof -
  define f where "f = \<lfloor>y\<rfloor>"
  define r where "r = y - of_int f"
  have r: "0 \<le> r" "r < 1" unfolding r_def f_def by linarith+
  have y: "y = of_int f + r" by (simp add: r_def)
  have v: "rne y = (if r < 1 / 2 then f else if r > 1 / 2 then f + 1 else if even f then f else f + 1)"
    by (simp add: rne_def Let_def f_def r_def)
  consider "r < 1 / 2" | "r > 1 / 2" | "r = 1 / 2" "even f" | "r = 1 / 2" "odd f" by fastforce
  then show ?thesis
  proof cases
    case 1
    then show ?thesis unfolding v using r by (simp add: y)
  next
    case 2
    then show ?thesis unfolding v using r by (simp add: y)
  next
    case 3
    then show ?thesis unfolding v by (simp add: y)
  next
    case 4
    then show ?thesis unfolding v by (simp add: y)
  qed
qed

lemma rne_error: "\<bar>y - of_int (rne y)\<bar> \<le> 1 / 2"
  using rne_near [of y] by auto

lemma rne_minus: "rne (- y) = - rne y"
  using rne_near [of y] by (intro rne_eqI) (auto simp: abs_if split: if_splits)

lemma rne_of_int [simp]: "rne (of_int k) = k"
  by (rule rne_eqI) simp

lemma rne_ge_floor: "\<lfloor>y\<rfloor> \<le> rne y"
  by (simp add: rne_def Let_def)

lemma floor_log2_eqI:
  assumes "2 powi e \<le> x" "x < 2 powi (e + 1)"
  shows "\<lfloor>log 2 x\<rfloor> = e"
proof -
  have "0 < (2::real) powi e" by simp
  then have pos: "0 < x" using assms(1) by linarith
  have "2 powr real_of_int e \<le> x" "x < 2 powr (real_of_int e + 1)"
    using assms powr_real_of_int' [of 2 e] powr_real_of_int' [of 2 "e + 1"] by simp_all
  then show ?thesis using pos by (simp add: floor_log_eq_powr_iff)
qed

lemma binade_eqI:
  assumes "2 powi e \<le> \<bar>x\<bar>" "\<bar>x\<bar> < 2 powi (e + 1)" "- 1022 \<le> e"
  shows "binade x = e"
  using floor_log2_eqI [OF assms(1,2)] assms(3) by (simp add: binade_def)

lemma binade_subnormal:
  assumes "x \<noteq> 0" "\<bar>x\<bar> < 2 powi (- 1022)"
  shows "binade x = - 1022"
proof -
  have "\<bar>x\<bar> < 2 powr real_of_int (- 1022)"
    using assms(2) powr_real_of_int' [of 2 "- 1022"] by simp
  then have "log 2 \<bar>x\<bar> < real_of_int (- 1022)"
    using assms(1) by (simp add: log_less_iff)
  then have "\<lfloor>log 2 \<bar>x\<bar>\<rfloor> < - 1022" by linarith
  then show ?thesis by (simp add: binade_def)
qed

lemma binade_ge: "- 1022 \<le> binade x"
  by (simp add: binade_def)

lemma ulp64_pos: "0 < ulp64 x"
  by (simp add: ulp64_def)

lemma round64_0 [simp]: "round64 0 = 0"
  by (simp add: round64_def)

lemma round64_eqI:
  fixes x :: real and k :: int and N :: nat
  assumes N: "N \<le> 1074"
    and lo: "2 ^ 52 \<le> \<bar>x\<bar> * 2 ^ N \<or> N = 1074"
    and hi: "\<bar>x\<bar> * 2 ^ N < 2 ^ 53"
    and near: "\<bar>x * 2 ^ N - of_int k\<bar> < 1 / 2 \<or> (\<bar>x * 2 ^ N - of_int k\<bar> = 1 / 2 \<and> even k)"
  shows "round64 x = of_int k / 2 ^ N"
proof (cases "x = 0")
  case True
  then have "k = 0" using near by auto
  then show ?thesis using True by simp
next
  case False
  have p: "(2::real) powi (52 - int N) * 2 ^ N = 2 ^ 52" "(2::real) powi (53 - int N) * 2 ^ N = 2 ^ 53"
    by (simp_all add: power_int_diff)
  have b: "binade x = 52 - int N"
  proof (cases "2 ^ 52 \<le> \<bar>x\<bar> * 2 ^ N")
    case True
    have "2 powi (52 - int N) * 2 ^ N \<le> \<bar>x\<bar> * 2 ^ N" using True p by simp
    then have 1: "2 powi (52 - int N) \<le> \<bar>x\<bar>" by simp
    have "\<bar>x\<bar> * 2 ^ N < 2 powi (53 - int N) * 2 ^ N" using hi p by simp
    then have 2: "\<bar>x\<bar> < 2 powi (52 - int N + 1)" by (simp add: algebra_simps)
    show ?thesis using 1 2 N by (intro binade_eqI) simp_all
  next
    case False
    then have n: "N = 1074" using lo by simp
    have "\<bar>x\<bar> * 2 ^ N < 2 powi (52 - int N) * 2 ^ N" using False p by simp
    then have "\<bar>x\<bar> < 2 powi (52 - int N)" by simp
    then show ?thesis using binade_subnormal [of x] \<open>x \<noteq> 0\<close> by (simp add: n)
  qed
  have u: "ulp64 x = 1 / 2 ^ N"
    by (simp add: ulp64_def b power_int_minus_divide)
  have "rne (x / ulp64 x) = k" unfolding u using near by (intro rne_eqI) simp
  then show ?thesis using False by (simp add: round64_def u)
qed

lemma binade_minus [simp]: "binade (- x) = binade x"
  by (simp add: binade_def)

lemma ulp64_minus [simp]: "ulp64 (- x) = ulp64 x"
  by (simp add: ulp64_def)

lemma round64_minus: "round64 (- x) = - round64 x"
  by (simp add: round64_def rne_minus)

lemma round64_error: "\<bar>round64 x - x\<bar> \<le> ulp64 x / 2"
proof (cases "x = 0")
  case True
  then show ?thesis using ulp64_pos [of x] by simp
next
  case False
  let ?u = "ulp64 x"
  have u: "0 < ?u" by (rule ulp64_pos)
  have "round64 x - x = ?u * (of_int (rne (x / ?u)) - x / ?u)"
    using False u by (simp add: round64_def algebra_simps)
  then have "\<bar>round64 x - x\<bar> = ?u * \<bar>x / ?u - of_int (rne (x / ?u))\<bar>"
    using u by (simp add: abs_mult abs_minus_commute)
  also have "\<dots> \<le> ?u * (1 / 2)"
    using u rne_error [of "x / ?u"] by (intro mult_left_mono) simp_all
  finally show ?thesis by simp
qed

lemma floor_log2_bounds:
  assumes "0 < x"
  shows "2 powi \<lfloor>log 2 x\<rfloor> \<le> x" "x < 2 powi (\<lfloor>log 2 x\<rfloor> + 1)"
proof -
  have "2 powr real_of_int \<lfloor>log 2 x\<rfloor> \<le> x \<and> x < 2 powr (real_of_int \<lfloor>log 2 x\<rfloor> + 1)"
    using assms floor_log_eq_powr_iff [of x 2 "\<lfloor>log 2 x\<rfloor>"] by simp
  then show "2 powi \<lfloor>log 2 x\<rfloor> \<le> x" "x < 2 powi (\<lfloor>log 2 x\<rfloor> + 1)"
    using powr_real_of_int' [of 2 "\<lfloor>log 2 x\<rfloor>"] powr_real_of_int' [of 2 "\<lfloor>log 2 x\<rfloor> + 1"]
    by simp_all
qed

lemma ulp64_le:
  assumes "x \<noteq> 0"
  shows "ulp64 x \<le> \<bar>x\<bar> / 2 ^ 52 + 1 / 2 ^ 1074"
proof (cases "- 1022 \<le> \<lfloor>log 2 \<bar>x\<bar>\<rfloor>")
  case True
  then have b: "binade x = \<lfloor>log 2 \<bar>x\<bar>\<rfloor>" by (simp add: binade_def)
  have "2 powi binade x \<le> \<bar>x\<bar>" unfolding b using assms by (intro floor_log2_bounds) simp
  then have "2 powi binade x / 2 ^ 52 \<le> \<bar>x\<bar> / 2 ^ 52" by (simp add: divide_right_mono)
  moreover have "ulp64 x = 2 powi binade x / 2 ^ 52" by (simp add: ulp64_def power_int_diff)
  ultimately show ?thesis by simp
next
  case False
  then have "binade x = - 1022" by (simp add: binade_def)
  then have "ulp64 x = 1 / 2 ^ 1074" by (simp add: ulp64_def power_int_minus_divide)
  then show ?thesis by simp
qed

lemma round64_rel_error: "\<bar>round64 x - x\<bar> \<le> \<bar>x\<bar> / 2 ^ 53 + 1 / 2 ^ 1075"
proof (cases "x = 0")
  case True
  then show ?thesis by simp
next
  case False
  have "\<bar>round64 x - x\<bar> \<le> ulp64 x / 2" by (rule round64_error)
  also have "\<dots> \<le> (\<bar>x\<bar> / 2 ^ 52 + 1 / 2 ^ 1074) / 2"
    using ulp64_le [OF False] by simp
  also have "\<dots> = \<bar>x\<bar> / 2 ^ 53 + 1 / 2 ^ 1075" by simp
  finally show ?thesis .
qed

lemma round64_ge_pow2:
  assumes "2 powi e \<le> x" "- 1022 \<le> e"
  shows "2 powi e \<le> round64 x"
proof -
  have "0 < (2::real) powi e" by simp
  then have pos: "0 < x" using assms(1) by linarith
  let ?b = "\<lfloor>log 2 x\<rfloor>"
  have bb: "2 powi ?b \<le> x" "x < 2 powi (?b + 1)" using pos by (rule floor_log2_bounds)+
  have lt: "(2::real) powi e < 2 powi (?b + 1)" using assms(1) bb(2) by linarith
  have eb: "e \<le> ?b"
  proof (rule ccontr)
    assume "\<not> e \<le> ?b"
    then have "?b + 1 \<le> e" by simp
    then have "(2::real) powi (?b + 1) \<le> 2 powi e" by (intro power_int_increasing) simp_all
    then show False using lt by simp
  qed
  then have b: "binade x = ?b" using assms(2) pos by (simp add: binade_def)
  let ?u = "ulp64 x"
  have u: "?u = 2 powi ?b / 2 ^ 52" by (simp add: ulp64_def b power_int_diff)
  have upos: "0 < ?u" by (rule ulp64_pos)
  have "2 ^ 52 * ?u \<le> x" using bb(1) by (simp add: u)
  then have "of_int (2 ^ 52) \<le> x / ?u" using upos by (simp add: pos_le_divide_eq)
  then have "2 ^ 52 \<le> \<lfloor>x / ?u\<rfloor>" by (simp only: le_floor_iff)
  then have "2 ^ 52 \<le> rne (x / ?u)" using rne_ge_floor [of "x / ?u"] by linarith
  then have "(2::real) ^ 52 \<le> of_int (rne (x / ?u))" by (metis of_int_le_iff of_int_numeral of_int_power)
  then have "?u * 2 ^ 52 \<le> ?u * of_int (rne (x / ?u))" using upos by (intro mult_left_mono) simp_all
  then have "2 powi ?b \<le> round64 x" using pos by (simp add: round64_def u)
  moreover have "(2::real) powi e \<le> 2 powi ?b" using eb by (intro power_int_increasing) simp_all
  ultimately show ?thesis by linarith
qed

lemma ulp64_le_normal:
  assumes "2 powi (- 1022) \<le> \<bar>x\<bar>"
  shows "ulp64 x \<le> \<bar>x\<bar> / 2 ^ 52"
proof -
  have "0 < (2::real) powi (- 1022)" by simp
  then have pos: "0 < \<bar>x\<bar>" using assms by linarith
  let ?b = "\<lfloor>log 2 \<bar>x\<bar>\<rfloor>"
  have bb: "2 powi ?b \<le> \<bar>x\<bar>" "\<bar>x\<bar> < 2 powi (?b + 1)" using pos by (rule floor_log2_bounds)+
  have lt: "(2::real) powi (- 1022) < 2 powi (?b + 1)" using assms bb(2) by linarith
  have "- 1022 \<le> ?b"
  proof (rule ccontr)
    assume "\<not> - 1022 \<le> ?b"
    then have "?b + 1 \<le> - 1022" by linarith
    then have "(2::real) powi (?b + 1) \<le> 2 powi (- 1022)" by (intro power_int_increasing) simp_all
    then show False using lt by simp
  qed
  then have b: "binade x = ?b" by (simp add: binade_def)
  have "ulp64 x = 2 powi ?b / 2 ^ 52" by (simp add: ulp64_def b power_int_diff)
  also have "\<dots> \<le> \<bar>x\<bar> / 2 ^ 52" using bb(1) by (simp add: divide_right_mono)
  finally show ?thesis .
qed

lemma round64_rel_error_normal:
  assumes "2 powi (- 1022) \<le> \<bar>x\<bar>"
  shows "\<bar>round64 x - x\<bar> \<le> \<bar>x\<bar> / 2 ^ 53"
proof -
  have "\<bar>round64 x - x\<bar> \<le> ulp64 x / 2" by (rule round64_error)
  also have "\<dots> \<le> (\<bar>x\<bar> / 2 ^ 52) / 2" using ulp64_le_normal [OF assms] by simp
  finally show ?thesis by simp
qed

lemma round64_pos_bounds:
  assumes "2 powi e \<le> x" "- 1022 \<le> e"
  shows "2 powi e \<le> round64 x" "x - x / 2 ^ 53 \<le> round64 x" "round64 x \<le> x + x / 2 ^ 53"
proof -
  have "0 < (2::real) powi e" by simp
  then have pos: "0 < x" using assms(1) by linarith
  show "2 powi e \<le> round64 x" using assms by (rule round64_ge_pow2)
  have "(2::real) powi (- 1022) \<le> 2 powi e" using assms(2) by (intro power_int_increasing) simp_all
  then have "2 powi (- 1022) \<le> \<bar>x\<bar>" using assms(1) by linarith
  then have "\<bar>round64 x - x\<bar> \<le> \<bar>x\<bar> / 2 ^ 53" by (rule round64_rel_error_normal)
  then have "\<bar>round64 x - x\<bar> \<le> x / 2 ^ 53" using pos by simp
  then show "x - x / 2 ^ 53 \<le> round64 x" "round64 x \<le> x + x / 2 ^ 53"
    by linarith+
qed

lemma add_sub_residue64:
  "\<bar>round64 (round64 (r + d) - d) - r\<bar> \<le> (\<bar>r\<bar> + \<bar>d\<bar>) / 2 ^ 51 + 1 / 2 ^ 1073"
proof -
  define a where "a = round64 (r + d)"
  define b where "b = round64 (a - d)"
  define m where "m = \<bar>r\<bar> + \<bar>d\<bar>"
  define c :: real where "c = 1 / 2 ^ 1075"
  define u where "u = m / 2 ^ 53"
  have m: "0 \<le> m" by (simp add: m_def)
  have c: "0 \<le> c" by (simp add: c_def)
  have u: "0 \<le> u" "u \<le> m" using m by (simp_all add: u_def field_simps)
  have "\<bar>a - (r + d)\<bar> \<le> \<bar>r + d\<bar> / 2 ^ 53 + c"
    unfolding a_def c_def by (rule round64_rel_error)
  moreover have "\<bar>r + d\<bar> / 2 ^ 53 \<le> u"
    unfolding u_def m_def by (intro divide_right_mono) simp_all
  ultimately have a1: "\<bar>a - (r + d)\<bar> \<le> u + c" by linarith
  have "\<bar>a - d\<bar> \<le> \<bar>a - (r + d)\<bar> + \<bar>r\<bar>" by simp
  moreover have "\<bar>r\<bar> \<le> m" by (simp add: m_def)
  ultimately have a3: "\<bar>a - d\<bar> \<le> 2 * m + c" using a1 u by linarith
  have "\<bar>b - (a - d)\<bar> \<le> \<bar>a - d\<bar> / 2 ^ 53 + c"
    unfolding b_def c_def by (rule round64_rel_error)
  moreover have "\<bar>a - d\<bar> / 2 ^ 53 \<le> (2 * m + c) / 2 ^ 53"
    using a3 by (intro divide_right_mono) simp_all
  moreover have "(2 * m + c) / 2 ^ 53 = 2 * u + c / 2 ^ 53"
    by (simp add: u_def field_simps)
  ultimately have b1: "\<bar>b - (a - d)\<bar> \<le> 2 * u + c / 2 ^ 53 + c" by linarith
  have "\<bar>b - r\<bar> \<le> \<bar>b - (a - d)\<bar> + \<bar>a - (r + d)\<bar>" by simp
  then have "\<bar>b - r\<bar> \<le> 3 * u + (c / 2 ^ 53 + 2 * c)" using a1 b1 by linarith
  moreover have "3 * u \<le> m / 2 ^ 51" using m by (simp add: u_def field_simps)
  moreover have "c / 2 ^ 53 + 2 * c \<le> 1 / 2 ^ 1073" by (simp add: c_def)
  ultimately have "\<bar>b - r\<bar> \<le> m / 2 ^ 51 + 1 / 2 ^ 1073" by linarith
  then show ?thesis by (simp add: b_def a_def m_def)
qed

lemma triple_round64:
  assumes "2 powi (- 13) \<le> a"
  shows "0 < round64 (round64 (round64 a / (1 / 2)))"
    and "\<bar>round64 (round64 (round64 a / (1 / 2))) - 2 * a\<bar> \<le> 2 * a / 2 ^ 51"
proof -
  define y1 where "y1 = round64 a"
  define y2 where "y2 = round64 (y1 / (1 / 2))"
  define y3 where "y3 = round64 y2"
  have e13: "(- 1022::int) \<le> - 13" and e12: "(- 1022::int) \<le> - 12" by simp_all
  have b1: "2 powi (- 13) \<le> y1" "a - a / 2 ^ 53 \<le> y1" "y1 \<le> a + a / 2 ^ 53"
    unfolding y1_def by (rule round64_pos_bounds [OF assms e13])+
  have x2: "2 powi (- 12) \<le> y1 / (1 / 2)" using b1(1) by simp
  have b2: "2 powi (- 12) \<le> y2" "y1 / (1 / 2) - y1 / (1 / 2) / 2 ^ 53 \<le> y2"
    "y2 \<le> y1 / (1 / 2) + y1 / (1 / 2) / 2 ^ 53"
    unfolding y2_def by (rule round64_pos_bounds [OF x2 e12])+
  have b3: "2 powi (- 12) \<le> y3" "y2 - y2 / 2 ^ 53 \<le> y3" "y3 \<le> y2 + y2 / 2 ^ 53"
    unfolding y3_def by (rule round64_pos_bounds [OF b2(1) e12])+
  have "0 < (2::real) powi (- 12)" by simp
  then have "0 < y3" using b3(1) by linarith
  then show "0 < round64 (round64 (round64 a / (1 / 2)))" by (simp add: y3_def y2_def y1_def)
  have "0 < (2::real) powi (- 13)" by simp
  then have apos: "0 < a" using assms by linarith
  have "y3 - 2 * a \<le> 2 * a / 2 ^ 51" "2 * a - y3 \<le> 2 * a / 2 ^ 51"
    using b1(2,3) b2(2,3) b3(2,3) apos by (simp_all add: field_simps)
  then have "\<bar>y3 - 2 * a\<bar> \<le> 2 * a / 2 ^ 51" by linarith
  then show "\<bar>round64 (round64 (round64 a / (1 / 2))) - 2 * a\<bar> \<le> 2 * a / 2 ^ 51"
    by (simp add: y3_def y2_def y1_def)
qed

section \<open>What update on doubles leaves unchanged\<close>

lemma literals64:
  "round64 0.5 = 1 / 2"
  "round64 0.01 = 5764607523034235 / 576460752303423488"
  "round64 0.02 = 5764607523034235 / 288230376151711744"
  "round64 0.98 = 2206763817411543 / 2251799813685248"
  "round64 0.03 = 1080863910568919 / 36028797018963968"
proof -
  show "round64 0.5 = 1 / 2"
    using round64_eqI [where x = "0.5" and N = 53 and k = "4503599627370496"] by simp
  show "round64 0.01 = 5764607523034235 / 576460752303423488"
    using round64_eqI [where x = "0.01" and N = 59 and k = "5764607523034235"] by simp
  show "round64 0.02 = 5764607523034235 / 288230376151711744"
    using round64_eqI [where x = "0.02" and N = 58 and k = "5764607523034235"] by simp
  show "round64 0.98 = 2206763817411543 / 2251799813685248"
    using round64_eqI [where x = "0.98" and N = 53 and k = "8827055269646172"] by simp
  show "round64 0.03 = 1080863910568919 / 36028797018963968"
    using round64_eqI [where x = "0.03" and N = 58 and k = "8646911284551352"] by simp
qed

lemma configured64D:
  assumes "configured64 s"
  shows "maxSpeed s = 1 / 2"
    "acceleration s = 5764607523034235 / 576460752303423488"
    "braking s = 5764607523034235 / 288230376151711744"
    "friction s = 2206763817411543 / 2251799813685248"
    "turnSpeed s = 1080863910568919 / 36028797018963968"
  using assms by (simp_all only: configured64_def literals64)

lemma round64_half: "round64 (1 / 2) = 1 / 2"
  using round64_eqI [where x = "1 / 2" and N = 53 and k = "4503599627370496"] by simp

lemma round64_quarter: "round64 (- (1 / 4)) = - (1 / 4)"
  using round64_eqI [where x = "- (1 / 4)" and N = 54 and k = "- 4503599627370496"] by simp

lemma speed_lo64: "fmul (- (1 / 2)) (round64 (1 / 2)) = - (1 / 4)"
  by (simp add: fmul_def round64_half round64_quarter)

lemma update64_frame [simp]:
  "maxSpeed (update64 sn cs dt s) = maxSpeed s" "acceleration (update64 sn cs dt s) = acceleration s"
  "braking (update64 sn cs dt s) = braking s" "friction (update64 sn cs dt s) = friction s"
  "turnSpeed (update64 sn cs dt s) = turnSpeed s" "controls (update64 sn cs dt s) = controls s"
  by (simp_all add: update64_def update_position64_def update_rotation64_def update_speed64_def Let_def)

lemma speed_update64 [simp]: "speed (update64 sn cs dt s) = speed (update_speed64 s)"
  by (simp add: update64_def update_position64_def update_rotation64_def Let_def)

lemma ticks64_frame [simp]:
  "maxSpeed (ticks64 sn cs n dt s) = maxSpeed s" "acceleration (ticks64 sn cs n dt s) = acceleration s"
  "braking (ticks64 sn cs n dt s) = braking s" "friction (ticks64 sn cs n dt s) = friction s"
  "turnSpeed (ticks64 sn cs n dt s) = turnSpeed s" "controls (ticks64 sn cs n dt s) = controls s"
  by (induction n) simp_all

lemma configured64_ticks: "configured64 s \<Longrightarrow> configured64 (ticks64 sn cs n dt s)"
  by (simp add: configured64_def)

lemma gas_tick64:
  assumes "configured64 s" "gas (controls s)"
  shows "speed (update_speed64 s) =
    clamp (round64 (speed s + 5764607523034235 / 576460752303423488)) (- (1 / 4)) (1 / 2)"
  using assms(2)
  by (simp add: update_speed64_def Let_def fadd_def speed_lo64 configured64D [OF assms(1)])

lemma update_speed64_frame [simp]:
  "maxSpeed (update_speed64 s) = maxSpeed s" "acceleration (update_speed64 s) = acceleration s"
  "braking (update_speed64 s) = braking s" "friction (update_speed64 s) = friction s"
  "turnSpeed (update_speed64 s) = turnSpeed s" "controls (update_speed64 s) = controls s"
  "rotation (update_speed64 s) = rotation s"
  by (simp_all add: update_speed64_def Let_def)

lemma rotation_update64 [simp]:
  "rotation (update64 sn cs dt s) = rotation (update_rotation64 (update_speed64 s))"
  by (simp add: update64_def update_position64_def Let_def)

lemma turn_increment64_update64 [simp]:
  "turn_increment64 (update64 sn cs dt s) = turn_increment64 (update_speed64 s)"
  by (simp add: turn_increment64_def)

lemma configured64_update64: "configured64 s \<Longrightarrow> configured64 (update64 sn cs dt s)"
  by (simp add: configured64_def)

lemma keydown_frame64 [simp]:
  "speed (keydown k c s) = speed s" "rotation (keydown k c s) = rotation s"
  "maxSpeed (keydown k c s) = maxSpeed s" "acceleration (keydown k c s) = acceleration s"
  "braking (keydown k c s) = braking s" "friction (keydown k c s) = friction s"
  "turnSpeed (keydown k c s) = turnSpeed s"
  by (simp_all add: keydown_def Let_def)

lemma configured64_keydown: "configured64 s \<Longrightarrow> configured64 (keydown k c s)"
  by (simp add: configured64_def)

lemma configured64_new: "configured64 new_TruckController64"
  by (simp add: configured64_def new_TruckController64_def)

section \<open>The first fifty sums of the acceleration\<close>

lemma gas_sums:
  "round64 (0 + 5764607523034235 / 576460752303423488) = 5764607523034235 / 576460752303423488"
  "round64 (5764607523034235 / 576460752303423488 + 5764607523034235 / 576460752303423488) = 5764607523034235 / 288230376151711744"
  "round64 (5764607523034235 / 288230376151711744 + 5764607523034235 / 576460752303423488) = 1080863910568919 / 36028797018963968"
  "round64 (1080863910568919 / 36028797018963968 + 5764607523034235 / 576460752303423488) = 5764607523034235 / 144115188075855872"
  "round64 (5764607523034235 / 144115188075855872 + 5764607523034235 / 576460752303423488) = 3602879701896397 / 72057594037927936"
  "round64 (3602879701896397 / 72057594037927936 + 5764607523034235 / 576460752303423488) = 8646911284551353 / 144115188075855872"
  "round64 (8646911284551353 / 144115188075855872 + 5764607523034235 / 576460752303423488) = 1261007895663739 / 18014398509481984"
  "round64 (1261007895663739 / 18014398509481984 + 5764607523034235 / 576460752303423488) = 5764607523034235 / 72057594037927936"
  "round64 (5764607523034235 / 72057594037927936 + 5764607523034235 / 576460752303423488) = 3242591731706757 / 36028797018963968"
  "round64 (3242591731706757 / 36028797018963968 + 5764607523034235 / 576460752303423488) = 7205759403792793 / 72057594037927936"
  "round64 (7205759403792793 / 72057594037927936 + 5764607523034235 / 576460752303423488) = 990791918021509 / 9007199254740992"
  "round64 (990791918021509 / 9007199254740992 + 5764607523034235 / 576460752303423488) = 8646911284551351 / 72057594037927936"
  "round64 (8646911284551351 / 72057594037927936 + 5764607523034235 / 576460752303423488) = 4683743612465315 / 36028797018963968"
  "round64 (4683743612465315 / 36028797018963968 + 5764607523034235 / 576460752303423488) = 5044031582654955 / 36028797018963968"
  "round64 (5044031582654955 / 36028797018963968 + 5764607523034235 / 576460752303423488) = 5404319552844595 / 36028797018963968"
  "round64 (5404319552844595 / 36028797018963968 + 5764607523034235 / 576460752303423488) = 5764607523034235 / 36028797018963968"
  "round64 (5764607523034235 / 36028797018963968 + 5764607523034235 / 576460752303423488) = 6124895493223875 / 36028797018963968"
  "round64 (6124895493223875 / 36028797018963968 + 5764607523034235 / 576460752303423488) = 6485183463413515 / 36028797018963968"
  "round64 (6485183463413515 / 36028797018963968 + 5764607523034235 / 576460752303423488) = 6845471433603155 / 36028797018963968"
  "round64 (6845471433603155 / 36028797018963968 + 5764607523034235 / 576460752303423488) = 7205759403792795 / 36028797018963968"
  "round64 (7205759403792795 / 36028797018963968 + 5764607523034235 / 576460752303423488) = 7566047373982435 / 36028797018963968"
  "round64 (7566047373982435 / 36028797018963968 + 5764607523034235 / 576460752303423488) = 7926335344172075 / 36028797018963968"
  "round64 (7926335344172075 / 36028797018963968 + 5764607523034235 / 576460752303423488) = 8286623314361715 / 36028797018963968"
  "round64 (8286623314361715 / 36028797018963968 + 5764607523034235 / 576460752303423488) = 8646911284551355 / 36028797018963968"
  "round64 (8646911284551355 / 36028797018963968 + 5764607523034235 / 576460752303423488) = 4503599627370497 / 18014398509481984"
  "round64 (4503599627370497 / 18014398509481984 + 5764607523034235 / 576460752303423488) = 4683743612465317 / 18014398509481984"
  "round64 (4683743612465317 / 18014398509481984 + 5764607523034235 / 576460752303423488) = 4863887597560137 / 18014398509481984"
  "round64 (4863887597560137 / 18014398509481984 + 5764607523034235 / 576460752303423488) = 5044031582654957 / 18014398509481984"
  "round64 (5044031582654957 / 18014398509481984 + 5764607523034235 / 576460752303423488) = 5224175567749777 / 18014398509481984"
  "round64 (5224175567749777 / 18014398509481984 + 5764607523034235 / 576460752303423488) = 5404319552844597 / 18014398509481984"
  "round64 (5404319552844597 / 18014398509481984 + 5764607523034235 / 576460752303423488) = 5584463537939417 / 18014398509481984"
  "round64 (5584463537939417 / 18014398509481984 + 5764607523034235 / 576460752303423488) = 5764607523034237 / 18014398509481984"
  "round64 (5764607523034237 / 18014398509481984 + 5764607523034235 / 576460752303423488) = 5944751508129057 / 18014398509481984"
  "round64 (5944751508129057 / 18014398509481984 + 5764607523034235 / 576460752303423488) = 6124895493223877 / 18014398509481984"
  "round64 (6124895493223877 / 18014398509481984 + 5764607523034235 / 576460752303423488) = 6305039478318697 / 18014398509481984"
  "round64 (6305039478318697 / 18014398509481984 + 5764607523034235 / 576460752303423488) = 6485183463413517 / 18014398509481984"
  "round64 (6485183463413517 / 18014398509481984 + 5764607523034235 / 576460752303423488) = 6665327448508337 / 18014398509481984"
  "round64 (6665327448508337 / 18014398509481984 + 5764607523034235 / 576460752303423488) = 6845471433603157 / 18014398509481984"
  "round64 (6845471433603157 / 18014398509481984 + 5764607523034235 / 576460752303423488) = 7025615418697977 / 18014398509481984"
  "round64 (7025615418697977 / 18014398509481984 + 5764607523034235 / 576460752303423488) = 7205759403792797 / 18014398509481984"
  "round64 (7205759403792797 / 18014398509481984 + 5764607523034235 / 576460752303423488) = 7385903388887617 / 18014398509481984"
  "round64 (7385903388887617 / 18014398509481984 + 5764607523034235 / 576460752303423488) = 7566047373982437 / 18014398509481984"
  "round64 (7566047373982437 / 18014398509481984 + 5764607523034235 / 576460752303423488) = 7746191359077257 / 18014398509481984"
  "round64 (7746191359077257 / 18014398509481984 + 5764607523034235 / 576460752303423488) = 7926335344172077 / 18014398509481984"
  "round64 (7926335344172077 / 18014398509481984 + 5764607523034235 / 576460752303423488) = 8106479329266897 / 18014398509481984"
  "round64 (8106479329266897 / 18014398509481984 + 5764607523034235 / 576460752303423488) = 8286623314361717 / 18014398509481984"
  "round64 (8286623314361717 / 18014398509481984 + 5764607523034235 / 576460752303423488) = 8466767299456537 / 18014398509481984"
  "round64 (8466767299456537 / 18014398509481984 + 5764607523034235 / 576460752303423488) = 8646911284551357 / 18014398509481984"
  "round64 (8646911284551357 / 18014398509481984 + 5764607523034235 / 576460752303423488) = 8827055269646177 / 18014398509481984"
  "round64 (8827055269646177 / 18014398509481984 + 5764607523034235 / 576460752303423488) = 2251799813685249 / 4503599627370496"
  "round64 (1 / 2 + 5764607523034235 / 576460752303423488) = 2296835809958953 / 4503599627370496"
proof -
  show "round64 (0 + 5764607523034235 / 576460752303423488) = 5764607523034235 / 576460752303423488"
    using round64_eqI [where x = "0 + 5764607523034235 / 576460752303423488" and N = 59 and k = "5764607523034235"] by simp
  show "round64 (5764607523034235 / 576460752303423488 + 5764607523034235 / 576460752303423488) = 5764607523034235 / 288230376151711744"
    using round64_eqI [where x = "5764607523034235 / 576460752303423488 + 5764607523034235 / 576460752303423488" and N = 58 and k = "5764607523034235"] by simp
  show "round64 (5764607523034235 / 288230376151711744 + 5764607523034235 / 576460752303423488) = 1080863910568919 / 36028797018963968"
    using round64_eqI [where x = "5764607523034235 / 288230376151711744 + 5764607523034235 / 576460752303423488" and N = 58 and k = "8646911284551352"] by simp
  show "round64 (1080863910568919 / 36028797018963968 + 5764607523034235 / 576460752303423488) = 5764607523034235 / 144115188075855872"
    using round64_eqI [where x = "1080863910568919 / 36028797018963968 + 5764607523034235 / 576460752303423488" and N = 57 and k = "5764607523034235"] by simp
  show "round64 (5764607523034235 / 144115188075855872 + 5764607523034235 / 576460752303423488) = 3602879701896397 / 72057594037927936"
    using round64_eqI [where x = "5764607523034235 / 144115188075855872 + 5764607523034235 / 576460752303423488" and N = 57 and k = "7205759403792794"] by simp
  show "round64 (3602879701896397 / 72057594037927936 + 5764607523034235 / 576460752303423488) = 8646911284551353 / 144115188075855872"
    using round64_eqI [where x = "3602879701896397 / 72057594037927936 + 5764607523034235 / 576460752303423488" and N = 57 and k = "8646911284551353"] by simp
  show "round64 (8646911284551353 / 144115188075855872 + 5764607523034235 / 576460752303423488) = 1261007895663739 / 18014398509481984"
    using round64_eqI [where x = "8646911284551353 / 144115188075855872 + 5764607523034235 / 576460752303423488" and N = 56 and k = "5044031582654956"] by simp
  show "round64 (1261007895663739 / 18014398509481984 + 5764607523034235 / 576460752303423488) = 5764607523034235 / 72057594037927936"
    using round64_eqI [where x = "1261007895663739 / 18014398509481984 + 5764607523034235 / 576460752303423488" and N = 56 and k = "5764607523034235"] by simp
  show "round64 (5764607523034235 / 72057594037927936 + 5764607523034235 / 576460752303423488) = 3242591731706757 / 36028797018963968"
    using round64_eqI [where x = "5764607523034235 / 72057594037927936 + 5764607523034235 / 576460752303423488" and N = 56 and k = "6485183463413514"] by simp
  show "round64 (3242591731706757 / 36028797018963968 + 5764607523034235 / 576460752303423488) = 7205759403792793 / 72057594037927936"
    using round64_eqI [where x = "3242591731706757 / 36028797018963968 + 5764607523034235 / 576460752303423488" and N = 56 and k = "7205759403792793"] by simp
  show "round64 (7205759403792793 / 72057594037927936 + 5764607523034235 / 576460752303423488) = 990791918021509 / 9007199254740992"
    using round64_eqI [where x = "7205759403792793 / 72057594037927936 + 5764607523034235 / 576460752303423488" and N = 56 and k = "7926335344172072"] by simp
  show "round64 (990791918021509 / 9007199254740992 + 5764607523034235 / 576460752303423488) = 8646911284551351 / 72057594037927936"
    using round64_eqI [where x = "990791918021509 / 9007199254740992 + 5764607523034235 / 576460752303423488" and N = 56 and k = "8646911284551351"] by simp
  show "round64 (8646911284551351 / 72057594037927936 + 5764607523034235 / 576460752303423488) = 4683743612465315 / 36028797018963968"
    using round64_eqI [where x = "8646911284551351 / 72057594037927936 + 5764607523034235 / 576460752303423488" and N = 55 and k = "4683743612465315"] by simp
  show "round64 (4683743612465315 / 36028797018963968 + 5764607523034235 / 576460752303423488) = 5044031582654955 / 36028797018963968"
    using round64_eqI [where x = "4683743612465315 / 36028797018963968 + 5764607523034235 / 576460752303423488" and N = 55 and k = "5044031582654955"] by simp
  show "round64 (5044031582654955 / 36028797018963968 + 5764607523034235 / 576460752303423488) = 5404319552844595 / 36028797018963968"
    using round64_eqI [where x = "5044031582654955 / 36028797018963968 + 5764607523034235 / 576460752303423488" and N = 55 and k = "5404319552844595"] by simp
  show "round64 (5404319552844595 / 36028797018963968 + 5764607523034235 / 576460752303423488) = 5764607523034235 / 36028797018963968"
    using round64_eqI [where x = "5404319552844595 / 36028797018963968 + 5764607523034235 / 576460752303423488" and N = 55 and k = "5764607523034235"] by simp
  show "round64 (5764607523034235 / 36028797018963968 + 5764607523034235 / 576460752303423488) = 6124895493223875 / 36028797018963968"
    using round64_eqI [where x = "5764607523034235 / 36028797018963968 + 5764607523034235 / 576460752303423488" and N = 55 and k = "6124895493223875"] by simp
  show "round64 (6124895493223875 / 36028797018963968 + 5764607523034235 / 576460752303423488) = 6485183463413515 / 36028797018963968"
    using round64_eqI [where x = "6124895493223875 / 36028797018963968 + 5764607523034235 / 576460752303423488" and N = 55 and k = "6485183463413515"] by simp
  show "round64 (6485183463413515 / 36028797018963968 + 5764607523034235 / 576460752303423488) = 6845471433603155 / 36028797018963968"
    using round64_eqI [where x = "6485183463413515 / 36028797018963968 + 5764607523034235 / 576460752303423488" and N = 55 and k = "6845471433603155"] by simp
  show "round64 (6845471433603155 / 36028797018963968 + 5764607523034235 / 576460752303423488) = 7205759403792795 / 36028797018963968"
    using round64_eqI [where x = "6845471433603155 / 36028797018963968 + 5764607523034235 / 576460752303423488" and N = 55 and k = "7205759403792795"] by simp
  show "round64 (7205759403792795 / 36028797018963968 + 5764607523034235 / 576460752303423488) = 7566047373982435 / 36028797018963968"
    using round64_eqI [where x = "7205759403792795 / 36028797018963968 + 5764607523034235 / 576460752303423488" and N = 55 and k = "7566047373982435"] by simp
  show "round64 (7566047373982435 / 36028797018963968 + 5764607523034235 / 576460752303423488) = 7926335344172075 / 36028797018963968"
    using round64_eqI [where x = "7566047373982435 / 36028797018963968 + 5764607523034235 / 576460752303423488" and N = 55 and k = "7926335344172075"] by simp
  show "round64 (7926335344172075 / 36028797018963968 + 5764607523034235 / 576460752303423488) = 8286623314361715 / 36028797018963968"
    using round64_eqI [where x = "7926335344172075 / 36028797018963968 + 5764607523034235 / 576460752303423488" and N = 55 and k = "8286623314361715"] by simp
  show "round64 (8286623314361715 / 36028797018963968 + 5764607523034235 / 576460752303423488) = 8646911284551355 / 36028797018963968"
    using round64_eqI [where x = "8286623314361715 / 36028797018963968 + 5764607523034235 / 576460752303423488" and N = 55 and k = "8646911284551355"] by simp
  show "round64 (8646911284551355 / 36028797018963968 + 5764607523034235 / 576460752303423488) = 4503599627370497 / 18014398509481984"
    using round64_eqI [where x = "8646911284551355 / 36028797018963968 + 5764607523034235 / 576460752303423488" and N = 54 and k = "4503599627370497"] by simp
  show "round64 (4503599627370497 / 18014398509481984 + 5764607523034235 / 576460752303423488) = 4683743612465317 / 18014398509481984"
    using round64_eqI [where x = "4503599627370497 / 18014398509481984 + 5764607523034235 / 576460752303423488" and N = 54 and k = "4683743612465317"] by simp
  show "round64 (4683743612465317 / 18014398509481984 + 5764607523034235 / 576460752303423488) = 4863887597560137 / 18014398509481984"
    using round64_eqI [where x = "4683743612465317 / 18014398509481984 + 5764607523034235 / 576460752303423488" and N = 54 and k = "4863887597560137"] by simp
  show "round64 (4863887597560137 / 18014398509481984 + 5764607523034235 / 576460752303423488) = 5044031582654957 / 18014398509481984"
    using round64_eqI [where x = "4863887597560137 / 18014398509481984 + 5764607523034235 / 576460752303423488" and N = 54 and k = "5044031582654957"] by simp
  show "round64 (5044031582654957 / 18014398509481984 + 5764607523034235 / 576460752303423488) = 5224175567749777 / 18014398509481984"
    using round64_eqI [where x = "5044031582654957 / 18014398509481984 + 5764607523034235 / 576460752303423488" and N = 54 and k = "5224175567749777"] by simp
  show "round64 (5224175567749777 / 18014398509481984 + 5764607523034235 / 576460752303423488) = 5404319552844597 / 18014398509481984"
    using round64_eqI [where x = "5224175567749777 / 18014398509481984 + 5764607523034235 / 576460752303423488" and N = 54 and k = "5404319552844597"] by simp
  show "round64 (5404319552844597 / 18014398509481984 + 5764607523034235 / 576460752303423488) = 5584463537939417 / 18014398509481984"
    using round64_eqI [where x = "5404319552844597 / 18014398509481984 + 5764607523034235 / 576460752303423488" and N = 54 and k = "5584463537939417"] by simp
  show "round64 (5584463537939417 / 18014398509481984 + 5764607523034235 / 576460752303423488) = 5764607523034237 / 18014398509481984"
    using round64_eqI [where x = "5584463537939417 / 18014398509481984 + 5764607523034235 / 576460752303423488" and N = 54 and k = "5764607523034237"] by simp
  show "round64 (5764607523034237 / 18014398509481984 + 5764607523034235 / 576460752303423488) = 5944751508129057 / 18014398509481984"
    using round64_eqI [where x = "5764607523034237 / 18014398509481984 + 5764607523034235 / 576460752303423488" and N = 54 and k = "5944751508129057"] by simp
  show "round64 (5944751508129057 / 18014398509481984 + 5764607523034235 / 576460752303423488) = 6124895493223877 / 18014398509481984"
    using round64_eqI [where x = "5944751508129057 / 18014398509481984 + 5764607523034235 / 576460752303423488" and N = 54 and k = "6124895493223877"] by simp
  show "round64 (6124895493223877 / 18014398509481984 + 5764607523034235 / 576460752303423488) = 6305039478318697 / 18014398509481984"
    using round64_eqI [where x = "6124895493223877 / 18014398509481984 + 5764607523034235 / 576460752303423488" and N = 54 and k = "6305039478318697"] by simp
  show "round64 (6305039478318697 / 18014398509481984 + 5764607523034235 / 576460752303423488) = 6485183463413517 / 18014398509481984"
    using round64_eqI [where x = "6305039478318697 / 18014398509481984 + 5764607523034235 / 576460752303423488" and N = 54 and k = "6485183463413517"] by simp
  show "round64 (6485183463413517 / 18014398509481984 + 5764607523034235 / 576460752303423488) = 6665327448508337 / 18014398509481984"
    using round64_eqI [where x = "6485183463413517 / 18014398509481984 + 5764607523034235 / 576460752303423488" and N = 54 and k = "6665327448508337"] by simp
  show "round64 (6665327448508337 / 18014398509481984 + 5764607523034235 / 576460752303423488) = 6845471433603157 / 18014398509481984"
    using round64_eqI [where x = "6665327448508337 / 18014398509481984 + 5764607523034235 / 576460752303423488" and N = 54 and k = "6845471433603157"] by simp
  show "round64 (6845471433603157 / 18014398509481984 + 5764607523034235 / 576460752303423488) = 7025615418697977 / 18014398509481984"
    using round64_eqI [where x = "6845471433603157 / 18014398509481984 + 5764607523034235 / 576460752303423488" and N = 54 and k = "7025615418697977"] by simp
  show "round64 (7025615418697977 / 18014398509481984 + 5764607523034235 / 576460752303423488) = 7205759403792797 / 18014398509481984"
    using round64_eqI [where x = "7025615418697977 / 18014398509481984 + 5764607523034235 / 576460752303423488" and N = 54 and k = "7205759403792797"] by simp
  show "round64 (7205759403792797 / 18014398509481984 + 5764607523034235 / 576460752303423488) = 7385903388887617 / 18014398509481984"
    using round64_eqI [where x = "7205759403792797 / 18014398509481984 + 5764607523034235 / 576460752303423488" and N = 54 and k = "7385903388887617"] by simp
  show "round64 (7385903388887617 / 18014398509481984 + 5764607523034235 / 576460752303423488) = 7566047373982437 / 18014398509481984"
    using round64_eqI [where x = "7385903388887617 / 18014398509481984 + 5764607523034235 / 576460752303423488" and N = 54 and k = "7566047373982437"] by simp
  show "round64 (7566047373982437 / 18014398509481984 + 5764607523034235 / 576460752303423488) = 7746191359077257 / 18014398509481984"
    using round64_eqI [where x = "7566047373982437 / 18014398509481984 + 5764607523034235 / 576460752303423488" and N = 54 and k = "7746191359077257"] by simp
  show "round64 (7746191359077257 / 18014398509481984 + 5764607523034235 / 576460752303423488) = 7926335344172077 / 18014398509481984"
    using round64_eqI [where x = "7746191359077257 / 18014398509481984 + 5764607523034235 / 576460752303423488" and N = 54 and k = "7926335344172077"] by simp
  show "round64 (7926335344172077 / 18014398509481984 + 5764607523034235 / 576460752303423488) = 8106479329266897 / 18014398509481984"
    using round64_eqI [where x = "7926335344172077 / 18014398509481984 + 5764607523034235 / 576460752303423488" and N = 54 and k = "8106479329266897"] by simp
  show "round64 (8106479329266897 / 18014398509481984 + 5764607523034235 / 576460752303423488) = 8286623314361717 / 18014398509481984"
    using round64_eqI [where x = "8106479329266897 / 18014398509481984 + 5764607523034235 / 576460752303423488" and N = 54 and k = "8286623314361717"] by simp
  show "round64 (8286623314361717 / 18014398509481984 + 5764607523034235 / 576460752303423488) = 8466767299456537 / 18014398509481984"
    using round64_eqI [where x = "8286623314361717 / 18014398509481984 + 5764607523034235 / 576460752303423488" and N = 54 and k = "8466767299456537"] by simp
  show "round64 (8466767299456537 / 18014398509481984 + 5764607523034235 / 576460752303423488) = 8646911284551357 / 18014398509481984"
    using round64_eqI [where x = "8466767299456537 / 18014398509481984 + 5764607523034235 / 576460752303423488" and N = 54 and k = "8646911284551357"] by simp
  show "round64 (8646911284551357 / 18014398509481984 + 5764607523034235 / 576460752303423488) = 8827055269646177 / 18014398509481984"
    using round64_eqI [where x = "8646911284551357 / 18014398509481984 + 5764607523034235 / 576460752303423488" and N = 54 and k = "8827055269646177"] by simp
  show "round64 (8827055269646177 / 18014398509481984 + 5764607523034235 / 576460752303423488) = 2251799813685249 / 4503599627370496"
    using round64_eqI [where x = "8827055269646177 / 18014398509481984 + 5764607523034235 / 576460752303423488" and N = 53 and k = "4503599627370498"] by simp
  show "round64 (1 / 2 + 5764607523034235 / 576460752303423488) = 2296835809958953 / 4503599627370496"
    using round64_eqI [where x = "1 / 2 + 5764607523034235 / 576460752303423488" and N = 53 and k = "4593671619917906"] by simp
qed

lemma gas_speeds64_step:
  "successively
     (\<lambda>a b. clamp (round64 (a + 5764607523034235 / 576460752303423488)) (- (1 / 4)) (1 / 2) = b)
     gas_speeds64"
  unfolding gas_speeds64_def successively.simps gas_sums by (simp add: clamp_def)

lemma length_gas_speeds64: "length gas_speeds64 = 51"
  by (simp add: gas_speeds64_def)

lemma gas_table_nth:
  assumes "configured64 s" and "speed s = 0" and "gas (controls s)"
  shows "n \<le> 50 \<Longrightarrow> speed (ticks64 sn cs n dt s) = gas_speeds64 ! n"
proof (induction n)
  case 0
  show ?case using assms(2) by (simp add: gas_speeds64_def)
next
  case (Suc n)
  then have ih: "speed (ticks64 sn cs n dt s) = gas_speeds64 ! n" by simp
  have "Suc n < length gas_speeds64" using Suc.prems by (simp add: length_gas_speeds64)
  then have "clamp (round64 (gas_speeds64 ! n + 5764607523034235 / 576460752303423488))
      (- (1 / 4)) (1 / 2) = gas_speeds64 ! Suc n"
    using gas_speeds64_step by (simp add: successively_conv_nth)
  then show ?case
    using gas_tick64 [OF configured64_ticks [OF assms(1)], of sn cs n dt] assms(3)
    by (simp add: ih)
qed

lemma gas_speeds64_increasing: "successively (<) gas_speeds64"
  by (simp add: gas_speeds64_def)

lemma close_to_hundredths_nth:
  "close_to_hundredths i vs \<Longrightarrow> k < length vs \<Longrightarrow> \<bar>vs ! k - real (i + k) * 0.01\<bar> \<le> 1 / 2 ^ 51"
proof (induction vs arbitrary: i k)
  case Nil
  then show ?case by simp
next
  case (Cons v vs)
  show ?case
  proof (cases k)
    case 0
    then show ?thesis using Cons.prems(1) by simp
  next
    case (Suc j)
    then have "\<bar>vs ! j - real (Suc i + j) * 0.01\<bar> \<le> 1 / 2 ^ 51"
      using Cons.prems by (intro Cons.IH) simp_all
    then show ?thesis using Suc by simp
  qed
qed

lemma gas_speeds64_close: "close_to_hundredths 0 gas_speeds64"
  by (simp add: gas_speeds64_def)

lemma ticks64_add:
  "ticks64 sn cs (m + n) dt s = ticks64 sn cs m dt (ticks64 sn cs n dt s)"
  by (induction m) simp_all

lemma gas_fixed64:
  assumes "configured64 s" "gas (controls s)" "speed s = 1 / 2"
  shows "speed (ticks64 sn cs m dt s) = 1 / 2"
proof (induction m)
  case 0
  show ?case using assms(3) by simp
next
  case (Suc m)
  have "speed (update_speed64 (ticks64 sn cs m dt s)) =
      clamp (round64 (1 / 2 + 5764607523034235 / 576460752303423488)) (- (1 / 4)) (1 / 2)"
    using gas_tick64 [OF configured64_ticks [OF assms(1)], of sn cs m dt] assms(2)
    by (simp only: Suc ticks64_frame)
  then show ?case unfolding gas_sums by (simp add: clamp_def)
qed

section \<open>Accelerating from rest\<close>

text \<open>
  Claim C8 says that from rest, with the gas flag set, the speed grows by exactly \<open>0.01\<close>
  per update. It does not hold on doubles: each sum is rounded. After pressing W at rest
  the speed is \<open>0.05\<close> after 5 updates and \<open>0.060000000000000005\<close> after 6, so the sixth
  update adds neither the acceleration nor \<open>0.01\<close>; it is \<open>0.49000000000000027\<close> after 49
  updates and \<open>0.5\<close> after 50, so the fiftieth does not add the acceleration either.
\<close>

theorem sums_of_hundredths_inexact:
  "acceleration (keydown ''w'' ''KeyW'' new_TruckController64) =
     5764607523034235 / 576460752303423488 \<and>
   speed (ticks64 sin cos 5 0 (keydown ''w'' ''KeyW'' new_TruckController64)) =
     3602879701896397 / 72057594037927936 \<and>
   speed (ticks64 sin cos 6 0 (keydown ''w'' ''KeyW'' new_TruckController64)) =
     8646911284551353 / 144115188075855872 \<and>
   speed (ticks64 sin cos 6 0 (keydown ''w'' ''KeyW'' new_TruckController64)) -
     speed (ticks64 sin cos 5 0 (keydown ''w'' ''KeyW'' new_TruckController64)) \<noteq>
     acceleration (keydown ''w'' ''KeyW'' new_TruckController64) \<and>
   speed (ticks64 sin cos 6 0 (keydown ''w'' ''KeyW'' new_TruckController64)) -
     speed (ticks64 sin cos 5 0 (keydown ''w'' ''KeyW'' new_TruckController64)) \<noteq> 0.01 \<and>
   speed (ticks64 sin cos 49 0 (keydown ''w'' ''KeyW'' new_TruckController64)) =
     8827055269646177 / 18014398509481984 \<and>
   speed (ticks64 sin cos 50 0 (keydown ''w'' ''KeyW'' new_TruckController64)) = 1 / 2 \<and>
   speed (ticks64 sin cos 50 0 (keydown ''w'' ''KeyW'' new_TruckController64)) -
     speed (ticks64 sin cos 49 0 (keydown ''w'' ''KeyW'' new_TruckController64)) \<noteq>
     acceleration (keydown ''w'' ''KeyW'' new_TruckController64)"
proof -
  let ?s = "keydown ''w'' ''KeyW'' new_TruckController64"
  have c: "configured64 ?s" and r: "speed ?s = 0" and g: "gas (controls ?s)"
    by (simp_all add: configured64_def keydown_def toLowerCase_def new_TruckController64_def
        no_controls_def)
  note tab = gas_table_nth [OF c r g, of _ sin cos 0]
  have a: "acceleration ?s = 5764607523034235 / 576460752303423488"
    using c by (rule configured64D)
  have 5: "speed (ticks64 sin cos 5 0 ?s) = 3602879701896397 / 72057594037927936"
    using tab [of 5] by (simp add: gas_speeds64_def)
  have 6: "speed (ticks64 sin cos 6 0 ?s) = 8646911284551353 / 144115188075855872"
    using tab [of 6] by (simp add: gas_speeds64_def)
  have 49: "speed (ticks64 sin cos 49 0 ?s) = 8827055269646177 / 18014398509481984"
    using tab [of 49] by (simp add: gas_speeds64_def)
  have 50: "speed (ticks64 sin cos 50 0 ?s) = 1 / 2"
    using tab [of 50] by (simp add: gas_speeds64_def)
  show ?thesis unfolding a 5 6 49 50 by simp
qed

text \<open>
  Claim C8, amended. From rest, with the gas flag set (the gas branch is tested first, so
  the other three flags do not matter), \<open>acceleration\<close> is the double \<open>0.01\<close> and \<open>maxSpeed\<close>
  is \<open>0.5\<close>; each update takes the speed to the rounded sum of the speed and the
  acceleration, clamped to the speed limits; the speed grows strictly at each of the
  first 50 updates and is within \<open>2 ^ -51\<close> of \<open>n * 0.01\<close> after \<open>n \<le> 50\<close> updates; it is
  exactly \<open>maxSpeed = 0.5\<close> at the 50th update and at every later one. The 50th rounded sum
  exceeds \<open>maxSpeed\<close>; it is the clamp that makes the speed \<open>0.5\<close> there.
\<close>

theorem accelerate_from_rest64:
  assumes "configured64 s" and "speed s = 0" and "gas (controls s)"
  shows "acceleration s = round64 0.01 \<and> maxSpeed s = 0.5 \<and>
    (\<forall>n. speed (ticks64 sn cs (Suc n) dt s) =
       clamp (fadd (speed (ticks64 sn cs n dt s)) (acceleration s))
         (fmul (- maxSpeed s) (round64 0.5)) (maxSpeed s)) \<and>
    (\<forall>n<50. speed (ticks64 sn cs n dt s) < speed (ticks64 sn cs (Suc n) dt s)) \<and>
    (\<forall>n\<le>50. \<bar>speed (ticks64 sn cs n dt s) - real n * 0.01\<bar> \<le> 1 / 2 ^ 51) \<and>
    (\<forall>n\<ge>50. speed (ticks64 sn cs n dt s) = maxSpeed s) \<and>
    maxSpeed s < fadd (speed (ticks64 sn cs 49 dt s)) (acceleration s)"
proof -
  note p = configured64D [OF assms(1)]
  note tab = gas_table_nth [OF assms, of _ sn cs dt]
  have 1: "acceleration s = round64 0.01" "maxSpeed s = 0.5"
    using assms(1) by (simp_all add: configured64_def round64_half)
  have 2: "\<forall>n. speed (ticks64 sn cs (Suc n) dt s) =
       clamp (fadd (speed (ticks64 sn cs n dt s)) (acceleration s))
         (fmul (- maxSpeed s) (round64 0.5)) (maxSpeed s)"
    using assms(3) by (simp add: update_speed64_def Let_def)
  have 3: "\<forall>n<50. speed (ticks64 sn cs n dt s) < speed (ticks64 sn cs (Suc n) dt s)"
  proof (intro allI impI)
    fix n :: nat
    assume that: "n < 50"
    have "Suc n < length gas_speeds64" using that by (simp add: length_gas_speeds64)
    then have "gas_speeds64 ! n < gas_speeds64 ! Suc n"
      using gas_speeds64_increasing by (simp add: successively_conv_nth)
    then show "speed (ticks64 sn cs n dt s) < speed (ticks64 sn cs (Suc n) dt s)"
      using that tab [of n] tab [of "Suc n"] by simp
  qed
  have 4: "\<forall>n\<le>50. \<bar>speed (ticks64 sn cs n dt s) - real n * 0.01\<bar> \<le> 1 / 2 ^ 51"
  proof (intro allI impI)
    fix n :: nat
    assume that: "n \<le> 50"
    have "n < length gas_speeds64" using that by (simp add: length_gas_speeds64)
    then have "\<bar>gas_speeds64 ! n - real (0 + n) * 0.01\<bar> \<le> 1 / 2 ^ 51"
      by (rule close_to_hundredths_nth [OF gas_speeds64_close])
    then show "\<bar>speed (ticks64 sn cs n dt s) - real n * 0.01\<bar> \<le> 1 / 2 ^ 51"
      using that tab [of n] by simp
  qed
  have 5: "\<forall>n\<ge>50. speed (ticks64 sn cs n dt s) = maxSpeed s"
  proof (intro allI impI)
    fix n :: nat
    assume that: "50 \<le> n"
    have half: "speed (ticks64 sn cs 50 dt s) = 1 / 2"
      using tab [of 50] by (simp add: gas_speeds64_def)
    have "n = (n - 50) + 50" using that by simp
    then have "ticks64 sn cs n dt s = ticks64 sn cs (n - 50) dt (ticks64 sn cs 50 dt s)"
      using ticks64_add [of sn cs "n - 50" 50 dt s] by simp
    moreover have "speed (ticks64 sn cs (n - 50) dt (ticks64 sn cs 50 dt s)) = 1 / 2"
      using configured64_ticks [OF assms(1)] _ half by (rule gas_fixed64) (simp add: assms(3))
    ultimately show "speed (ticks64 sn cs n dt s) = maxSpeed s" by (simp add: p)
  qed
  have "speed (ticks64 sn cs 49 dt s) = 8827055269646177 / 18014398509481984"
    using tab [of 49] by (simp add: gas_speeds64_def)
  then have "fadd (speed (ticks64 sn cs 49 dt s)) (acceleration s) =
      round64 (8827055269646177 / 18014398509481984 + 5764607523034235 / 576460752303423488)"
    by (simp only: fadd_def p)
  also have "\<dots> = 2251799813685249 / 4503599627370496" by (rule gas_sums(50))
  finally have 6: "maxSpeed s < fadd (speed (ticks64 sn cs 49 dt s)) (acceleration s)"
    by (simp add: p)
  show ?thesis by (intro conjI 1 2 3 4 5 6)
qed

text \<open>The theorem at the state reached by pressing W at rest, for 49, 50 and 100 updates.\<close>

theorem accelerate_from_rest64_witness:
  "configured64 (keydown ''w'' ''KeyW'' new_TruckController64) \<and>
   speed (keydown ''w'' ''KeyW'' new_TruckController64) = 0 \<and>
   gas (controls (keydown ''w'' ''KeyW'' new_TruckController64)) \<and>
   speed (ticks64 sin cos 49 0 (keydown ''w'' ''KeyW'' new_TruckController64)) <
     speed (ticks64 sin cos 50 0 (keydown ''w'' ''KeyW'' new_TruckController64)) \<and>
   \<bar>speed (ticks64 sin cos 49 0 (keydown ''w'' ''KeyW'' new_TruckController64)) - 0.49\<bar> \<le> 1 / 2 ^ 51 \<and>
   speed (ticks64 sin cos 50 0 (keydown ''w'' ''KeyW'' new_TruckController64)) = 0.5 \<and>
   speed (ticks64 sin cos 100 0 (keydown ''w'' ''KeyW'' new_TruckController64)) = 0.5"
proof -
  let ?s = "keydown ''w'' ''KeyW'' new_TruckController64"
  have c: "configured64 ?s" and r: "speed ?s = 0" and g: "gas (controls ?s)"
    by (simp_all add: configured64_def keydown_def toLowerCase_def new_TruckController64_def
        no_controls_def)
  note th = accelerate_from_rest64 [OF c r g, of sin cos 0]
  from th have m: "maxSpeed ?s = 0.5" by (rule conjunct1 [OF conjunct2])
  from th have lt: "\<forall>n<50. speed (ticks64 sin cos n 0 ?s) < speed (ticks64 sin cos (Suc n) 0 ?s)"
    by (rule conjunct1 [OF conjunct2 [OF conjunct2 [OF conjunct2]]])
  from th have cl: "\<forall>n\<le>50. \<bar>speed (ticks64 sin cos n 0 ?s) - real n * 0.01\<bar> \<le> 1 / 2 ^ 51"
    by (rule conjunct1 [OF conjunct2 [OF conjunct2 [OF conjunct2 [OF conjunct2]]]])
  from th have ge: "\<forall>n\<ge>50. speed (ticks64 sin cos n 0 ?s) = maxSpeed ?s"
    by (rule conjunct1 [OF conjunct2 [OF conjunct2 [OF conjunct2 [OF conjunct2 [OF conjunct2]]]]])
  have 1: "speed (ticks64 sin cos 49 0 ?s) < speed (ticks64 sin cos 50 0 ?s)"
    using lt [rule_format, of 49] by simp
  have 2: "\<bar>speed (ticks64 sin cos 49 0 ?s) - 0.49\<bar> \<le> 1 / 2 ^ 51"
    using cl [rule_format, of 49] by simp
  have 3: "speed (ticks64 sin cos 50 0 ?s) = 0.5" "speed (ticks64 sin cos 100 0 ?s) = 0.5"
    unfolding m [symmetric] by (rule ge [rule_format], simp)+
  show ?thesis by (intro conjI c r g 1 2 3)
qed

section \<open>Steering\<close>

lemma update_rotation64_eq:
  "rotation (update_rotation64 t) =
     (if \<bar>speed t\<bar> > round64 0.01 then
        (if left (controls t)
         then (if right (controls t)
               then fsub (fadd (rotation t) (turn_increment64 t)) (turn_increment64 t)
               else fadd (rotation t) (turn_increment64 t))
         else (if right (controls t) then fsub (rotation t) (turn_increment64 t) else rotation t))
      else rotation t)"
  by (simp add: update_rotation64_def Let_def turn_increment64_def)

lemma brake_tick64:
  assumes "configured64 s" "\<not> gas (controls s)" "brake (controls s)"
  shows "speed (update_speed64 s) =
    clamp (round64 (speed s - 5764607523034235 / 288230376151711744)) (- (1 / 4)) (1 / 2)"
  using assms(2,3)
  by (simp add: update_speed64_def Let_def fsub_def speed_lo64 configured64D [OF assms(1)])

lemma fmul_zero [simp]: "fmul 0 x = 0"
  by (simp add: fmul_def)

lemma rest_update_speed64:
  assumes "configured64 s" "speed s = 0" "\<not> brake (controls s)"
  shows "\<not> round64 0.01 < \<bar>speed (update_speed64 s)\<bar>"
proof (cases "gas (controls s)")
  case True
  have "speed (update_speed64 s) = clamp (round64 (0 + 5764607523034235 / 576460752303423488)) (- (1 / 4)) (1 / 2)"
    using gas_tick64 [OF assms(1) True] by (simp only: assms(2))
  then have "speed (update_speed64 s) = 5764607523034235 / 576460752303423488"
    unfolding gas_sums by (simp add: clamp_def)
  then show ?thesis by (simp only: literals64)
next
  case False
  then have "speed (update_speed64 s) = 0"
    using assms(2,3) by (simp add: update_speed64_def Let_def clamp_def speed_lo64
        configured64D [OF assms(1)])
  moreover have "(0::real) \<le> round64 0.01" by (simp only: literals64)
  ultimately show ?thesis by simp
qed

lemma turn_increment64_bounds:
  assumes "configured64 t" "round64 0.01 < \<bar>speed t\<bar>"
  shows "0 < speed t \<longrightarrow> 0 < turn_increment64 t"
    and "speed t < 0 \<longrightarrow> turn_increment64 t < 0"
    and "\<bar>turn_increment64 t - turnSpeed t * (\<bar>speed t\<bar> / maxSpeed t) * sgn (speed t)\<bar> \<le>
      turnSpeed t * (\<bar>speed t\<bar> / maxSpeed t) / 2 ^ 51"
proof -
  note p = configured64D [OF assms(1)]
  define a where "a = 1080863910568919 / 36028797018963968 * \<bar>speed t\<bar>"
  define y where "y = round64 (round64 a / (1 / 2))"
  have gate: "5764607523034235 / 576460752303423488 < \<bar>speed t\<bar>"
    using assms(2) by (simp only: literals64)
  have "(1::real) / 8192 \<le> 1080863910568919 / 36028797018963968 * (5764607523034235 / 576460752303423488)"
    by simp
  also have "\<dots> \<le> a" unfolding a_def using gate by (intro mult_left_mono) simp_all
  finally have a13: "2 powi (- 13) \<le> a" by simp
  have y3: "0 < round64 y" "\<bar>round64 y - 2 * a\<bar> \<le> 2 * a / 2 ^ 51"
    unfolding y_def by (rule triple_round64 [OF a13])+
  have d: "turn_increment64 t = round64 (y * (if speed t > 0 then 1 else - 1))"
    by (simp add: turn_increment64_def fmul_def fdiv_def p y_def a_def)
  have e: "turnSpeed t * (\<bar>speed t\<bar> / maxSpeed t) = 2 * a" by (simp add: p a_def)
  have nz: "speed t \<noteq> 0" using gate by auto
  show "0 < speed t \<longrightarrow> 0 < turn_increment64 t" using y3(1) by (simp add: d)
  show "speed t < 0 \<longrightarrow> turn_increment64 t < 0" using y3(1) by (simp add: d round64_minus)
  show "\<bar>turn_increment64 t - turnSpeed t * (\<bar>speed t\<bar> / maxSpeed t) * sgn (speed t)\<bar> \<le>
      turnSpeed t * (\<bar>speed t\<bar> / maxSpeed t) / 2 ^ 51"
  proof (cases "speed t > 0")
    case True
    then show ?thesis using y3(2) unfolding e by (simp add: d)
  next
    case False
    then have neg: "speed t < 0" using nz by simp
    have "\<bar>- round64 y - 2 * a * (- 1)\<bar> = \<bar>round64 y - 2 * a\<bar>" by simp
    then show ?thesis using y3(2) neg unfolding e by (simp add: d round64_minus)
  qed
qed

lemma turn_roundings:
  shows m1: "round64 (1080863910568919 / 36028797018963968 * \<bar>5764607523034235 / 288230376151711744\<bar>) = 5534023222112865 / 9223372036854775808"
    and d1: "round64 (5534023222112865 / 9223372036854775808 / (1 / 2)) = 5534023222112865 / 4611686018427387904"
    and t1: "round64 (5534023222112865 / 4611686018427387904 * 1) = 5534023222112865 / 4611686018427387904"
    and a1: "round64 (0 + 5534023222112865 / 4611686018427387904) = 5534023222112865 / 4611686018427387904"
    and m2: "round64 (1080863910568919 / 36028797018963968 * \<bar>1080863910568919 / 36028797018963968\<bar>) = 4150517416584649 / 4611686018427387904"
    and d2: "round64 (4150517416584649 / 4611686018427387904 / (1 / 2)) = 4150517416584649 / 2305843009213693952"
    and t2: "round64 (4150517416584649 / 2305843009213693952 * 1) = 4150517416584649 / 2305843009213693952"
    and a2: "round64 (5534023222112865 / 4611686018427387904 + 4150517416584649 / 2305843009213693952) = 3458764513820541 / 1152921504606846976"
    and s2: "round64 (3458764513820541 / 1152921504606846976 - 4150517416584649 / 2305843009213693952) = 2767011611056433 / 2305843009213693952"
    and b1: "round64 (0 - 5764607523034235 / 288230376151711744) = - (5764607523034235 / 288230376151711744)"
    and m3: "round64 (1080863910568919 / 36028797018963968 * \<bar>- (5764607523034235 / 288230376151711744)\<bar>) = 5534023222112865 / 9223372036854775808"
    and t3: "round64 (5534023222112865 / 4611686018427387904 * (- 1)) = - (5534023222112865 / 4611686018427387904)"
    and a3: "round64 (0 + - (5534023222112865 / 4611686018427387904)) = - (5534023222112865 / 4611686018427387904)"
proof -
  show "round64 (1080863910568919 / 36028797018963968 * \<bar>5764607523034235 / 288230376151711744\<bar>) = 5534023222112865 / 9223372036854775808"
    using round64_eqI [where x = "1080863910568919 / 36028797018963968 * \<bar>5764607523034235 / 288230376151711744\<bar>" and N = 63 and k = "5534023222112865"] by simp
  show "round64 (5534023222112865 / 9223372036854775808 / (1 / 2)) = 5534023222112865 / 4611686018427387904"
    using round64_eqI [where x = "5534023222112865 / 9223372036854775808 / (1 / 2)" and N = 62 and k = "5534023222112865"] by simp
  show "round64 (5534023222112865 / 4611686018427387904 * 1) = 5534023222112865 / 4611686018427387904"
    using round64_eqI [where x = "5534023222112865 / 4611686018427387904 * 1" and N = 62 and k = "5534023222112865"] by simp
  show "round64 (0 + 5534023222112865 / 4611686018427387904) = 5534023222112865 / 4611686018427387904"
    using round64_eqI [where x = "0 + 5534023222112865 / 4611686018427387904" and N = 62 and k = "5534023222112865"] by simp
  show "round64 (1080863910568919 / 36028797018963968 * \<bar>1080863910568919 / 36028797018963968\<bar>) = 4150517416584649 / 4611686018427387904"
    using round64_eqI [where x = "1080863910568919 / 36028797018963968 * \<bar>1080863910568919 / 36028797018963968\<bar>" and N = 63 and k = "8301034833169298"] by simp
  show "round64 (4150517416584649 / 4611686018427387904 / (1 / 2)) = 4150517416584649 / 2305843009213693952"
    using round64_eqI [where x = "4150517416584649 / 4611686018427387904 / (1 / 2)" and N = 62 and k = "8301034833169298"] by simp
  show "round64 (4150517416584649 / 2305843009213693952 * 1) = 4150517416584649 / 2305843009213693952"
    using round64_eqI [where x = "4150517416584649 / 2305843009213693952 * 1" and N = 62 and k = "8301034833169298"] by simp
  show "round64 (5534023222112865 / 4611686018427387904 + 4150517416584649 / 2305843009213693952) = 3458764513820541 / 1152921504606846976"
    using round64_eqI [where x = "5534023222112865 / 4611686018427387904 + 4150517416584649 / 2305843009213693952" and N = 61 and k = "6917529027641082"] by simp
  show "round64 (3458764513820541 / 1152921504606846976 - 4150517416584649 / 2305843009213693952) = 2767011611056433 / 2305843009213693952"
    using round64_eqI [where x = "3458764513820541 / 1152921504606846976 - 4150517416584649 / 2305843009213693952" and N = 62 and k = "5534023222112866"] by simp
  show "round64 (0 - 5764607523034235 / 288230376151711744) = - (5764607523034235 / 288230376151711744)"
    using round64_eqI [where x = "0 - 5764607523034235 / 288230376151711744" and N = 58 and k = "-5764607523034235"] by simp
  show "round64 (1080863910568919 / 36028797018963968 * \<bar>- (5764607523034235 / 288230376151711744)\<bar>) = 5534023222112865 / 9223372036854775808"
    using round64_eqI [where x = "1080863910568919 / 36028797018963968 * \<bar>- (5764607523034235 / 288230376151711744)\<bar>" and N = 63 and k = "5534023222112865"] by simp
  show "round64 (5534023222112865 / 4611686018427387904 * (- 1)) = - (5534023222112865 / 4611686018427387904)"
    using round64_eqI [where x = "5534023222112865 / 4611686018427387904 * (- 1)" and N = 62 and k = "-5534023222112865"] by simp
  show "round64 (0 + - (5534023222112865 / 4611686018427387904)) = - (5534023222112865 / 4611686018427387904)"
    using round64_eqI [where x = "0 + - (5534023222112865 / 4611686018427387904)" and N = 62 and k = "-5534023222112865"] by simp
qed

lemma gas_step64:
  assumes "configured64 s" "gas (controls s)" "speed s = u"
    "round64 (u + 5764607523034235 / 576460752303423488) = v" "- (1 / 4) \<le> v" "v \<le> 1 / 2"
  shows "speed (update64 sn cs dt s) = v"
  using gas_tick64 [OF assms(1,2)] assms(3-6) by (simp add: clamp_def)

lemma brake_step64:
  assumes "configured64 s" "\<not> gas (controls s)" "brake (controls s)" "speed s = u"
    "round64 (u - 5764607523034235 / 288230376151711744) = v" "- (1 / 4) \<le> v" "v \<le> 1 / 2"
  shows "speed (update64 sn cs dt s) = v"
  using brake_tick64 [OF assms(1,2,3)] assms(4-7) by (simp add: clamp_def)

lemma turn_increment64_forward:
  assumes "configured64 t" "speed t = v" "0 < v"
    "round64 (1080863910568919 / 36028797018963968 * \<bar>v\<bar>) = y1"
    "round64 (y1 / (1 / 2)) = y2" "round64 (y2 * 1) = d"
  shows "turn_increment64 t = d"
  using assms(2-) by (simp add: turn_increment64_def fmul_def fdiv_def configured64D [OF assms(1)])

lemma turn_increment64_reverse:
  assumes "configured64 t" "speed t = v" "v < 0"
    "round64 (1080863910568919 / 36028797018963968 * \<bar>v\<bar>) = y1"
    "round64 (y1 / (1 / 2)) = y2" "round64 (y2 * (- 1)) = d"
  shows "turn_increment64 t = d"
  using assms(2-) by (simp add: turn_increment64_def fmul_def fdiv_def configured64D [OF assms(1)])

lemma rotation_update64_eq:
  "rotation (update64 sn cs dt s) =
     (if 5764607523034235 / 576460752303423488 < \<bar>speed (update64 sn cs dt s)\<bar> then
        (if left (controls s)
         then (if right (controls s)
               then fsub (fadd (rotation s) (turn_increment64 (update64 sn cs dt s)))
                      (turn_increment64 (update64 sn cs dt s))
               else fadd (rotation s) (turn_increment64 (update64 sn cs dt s)))
         else (if right (controls s)
               then fsub (rotation s) (turn_increment64 (update64 sn cs dt s))
               else rotation s))
      else rotation s)"
  unfolding literals64(2) [symmetric] by (simp add: update_rotation64_eq)

lemma rotation_closed64:
  assumes "speed (update64 sn cs dt s) = v" "\<bar>v\<bar> \<le> 5764607523034235 / 576460752303423488"
  shows "rotation (update64 sn cs dt s) = rotation s"
  unfolding rotation_update64_eq using assms by simp

lemma rotation_left64:
  assumes "speed (update64 sn cs dt s) = v" "5764607523034235 / 576460752303423488 < \<bar>v\<bar>"
    "left (controls s)" "\<not> right (controls s)" "rotation s = r"
    "turn_increment64 (update64 sn cs dt s) = d" "round64 (r + d) = r'"
  shows "rotation (update64 sn cs dt s) = r'"
  unfolding rotation_update64_eq using assms by (simp add: fadd_def)

lemma rotation_both64:
  assumes "speed (update64 sn cs dt s) = v" "5764607523034235 / 576460752303423488 < \<bar>v\<bar>"
    "left (controls s)" "right (controls s)" "rotation s = r"
    "turn_increment64 (update64 sn cs dt s) = d" "round64 (r + d) = w" "round64 (w - d) = r'"
  shows "rotation (update64 sn cs dt s) = r'"
  unfolding rotation_update64_eq using assms by (simp add: fadd_def fsub_def)

lemma steering_history64:
  shows "configured64 (keydown ''d'' ''KeyD'' (update64 sn cs dt (update64 sn cs dt
           (keydown ''a'' ''KeyA'' (keydown ''w'' ''KeyW'' new_TruckController64)))))"
    and "left (controls (keydown ''d'' ''KeyD'' (update64 sn cs dt (update64 sn cs dt
           (keydown ''a'' ''KeyA'' (keydown ''w'' ''KeyW'' new_TruckController64))))))"
    and "right (controls (keydown ''d'' ''KeyD'' (update64 sn cs dt (update64 sn cs dt
           (keydown ''a'' ''KeyA'' (keydown ''w'' ''KeyW'' new_TruckController64))))))"
    and "rotation (keydown ''d'' ''KeyD'' (update64 sn cs dt (update64 sn cs dt
           (keydown ''a'' ''KeyA'' (keydown ''w'' ''KeyW'' new_TruckController64))))) = 5534023222112865 / 4611686018427387904"
    and "speed (update64 sn cs dt (keydown ''d'' ''KeyD'' (update64 sn cs dt (update64 sn cs dt
           (keydown ''a'' ''KeyA'' (keydown ''w'' ''KeyW'' new_TruckController64)))))) = 1080863910568919 / 36028797018963968"
    and "turn_increment64 (update64 sn cs dt (keydown ''d'' ''KeyD'' (update64 sn cs dt
           (update64 sn cs dt
             (keydown ''a'' ''KeyA'' (keydown ''w'' ''KeyW'' new_TruckController64)))))) = 4150517416584649 / 2305843009213693952"
    and "rotation (update64 sn cs dt (keydown ''d'' ''KeyD'' (update64 sn cs dt (update64 sn cs dt
           (keydown ''a'' ''KeyA'' (keydown ''w'' ''KeyW'' new_TruckController64)))))) = 2767011611056433 / 2305843009213693952"
proof -
  let ?s2 = "keydown ''a'' ''KeyA'' (keydown ''w'' ''KeyW'' new_TruckController64)"
  let ?s3 = "update64 sn cs dt ?s2"
  let ?s4 = "update64 sn cs dt ?s3"
  let ?s5 = "keydown ''d'' ''KeyD'' ?s4"
  let ?s6 = "update64 sn cs dt ?s5"
  have c2: "configured64 ?s2" by (intro configured64_keydown configured64_new)
  have k2: "gas (controls ?s2)" "left (controls ?s2)" "\<not> right (controls ?s2)"
    and z2: "speed ?s2 = 0" "rotation ?s2 = 0"
    by (simp_all add: keydown_def toLowerCase_def new_TruckController64_def no_controls_def)
  have c3: "configured64 ?s3" using c2 by (rule configured64_update64)
  have k3: "gas (controls ?s3)" "left (controls ?s3)" "\<not> right (controls ?s3)"
    using k2 by simp_all
  have v3: "speed ?s3 = 5764607523034235 / 576460752303423488"
    by (rule gas_step64 [OF c2 k2(1) z2(1) gas_sums(1)]) simp_all
  have r3: "rotation ?s3 = 0"
    using rotation_closed64 [OF v3] z2(2) by simp
  have c4: "configured64 ?s4" using c3 by (rule configured64_update64)
  have v4: "speed ?s4 = 5764607523034235 / 288230376151711744"
    by (rule gas_step64 [OF c3 k3(1) v3 gas_sums(2)]) simp_all
  have d4: "turn_increment64 ?s4 = 5534023222112865 / 4611686018427387904"
    by (rule turn_increment64_forward [OF c4 v4 _ m1 d1 t1]) simp
  have r4: "rotation ?s4 = 5534023222112865 / 4611686018427387904"
    by (rule rotation_left64 [OF v4 _ k3(2,3) r3 d4 a1]) simp
  show c5: "configured64 ?s5" using c4 by (rule configured64_keydown)
  have g5: "gas (controls ?s5)" using k3(1) by (simp add: keydown_def toLowerCase_def)
  show l5: "left (controls ?s5)" using k3(2) by (simp add: keydown_def toLowerCase_def)
  show q5: "right (controls ?s5)" by (simp add: keydown_def toLowerCase_def)
  have v5: "speed ?s5 = 5764607523034235 / 288230376151711744" using v4 by (simp only: keydown_frame64)
  show r5: "rotation ?s5 = 5534023222112865 / 4611686018427387904" using r4 by (simp only: keydown_frame64)
  have c6: "configured64 ?s6" using c5 by (rule configured64_update64)
  show v6: "speed ?s6 = 1080863910568919 / 36028797018963968"
    by (rule gas_step64 [OF c5 g5 v5 gas_sums(3)]) simp_all
  show d6: "turn_increment64 ?s6 = 4150517416584649 / 2305843009213693952"
    by (rule turn_increment64_forward [OF c6 v6 _ m2 d2 t2]) simp
  show "rotation ?s6 = 2767011611056433 / 2305843009213693952"
    by (rule rotation_both64 [OF v6 _ l5 q5 r5 d6 a2 s2]) simp
qed

lemma brake_steer_history64:
  shows "configured64 (keydown ''a'' ''KeyA'' (keydown ''s'' ''KeyS'' new_TruckController64))"
    and "speed (keydown ''a'' ''KeyA'' (keydown ''s'' ''KeyS'' new_TruckController64)) = 0"
    and "rotation (keydown ''a'' ''KeyA'' (keydown ''s'' ''KeyS'' new_TruckController64)) = 0"
    and "brake (controls (keydown ''a'' ''KeyA'' (keydown ''s'' ''KeyS'' new_TruckController64)))"
    and "left (controls (keydown ''a'' ''KeyA'' (keydown ''s'' ''KeyS'' new_TruckController64)))"
    and "speed (update64 sn cs dt
           (keydown ''a'' ''KeyA'' (keydown ''s'' ''KeyS'' new_TruckController64))) = - ((5764607523034235 / 288230376151711744))"
    and "rotation (update64 sn cs dt
           (keydown ''a'' ''KeyA'' (keydown ''s'' ''KeyS'' new_TruckController64))) = - ((5534023222112865 / 4611686018427387904))"
proof -
  let ?b = "keydown ''a'' ''KeyA'' (keydown ''s'' ''KeyS'' new_TruckController64)"
  let ?b' = "update64 sn cs dt ?b"
  show c: "configured64 ?b" by (intro configured64_keydown configured64_new)
  show z: "speed ?b = 0" "rotation ?b = 0"
    and k: "brake (controls ?b)" "left (controls ?b)"
    by (simp_all add: keydown_def toLowerCase_def new_TruckController64_def no_controls_def)
  have n: "\<not> gas (controls ?b)" "\<not> right (controls ?b)"
    by (simp_all add: keydown_def toLowerCase_def new_TruckController64_def no_controls_def)
  have c': "configured64 ?b'" using c by (rule configured64_update64)
  show v: "speed ?b' = - ((5764607523034235 / 288230376151711744))"
    by (rule brake_step64 [OF c n(1) k(1) z(1) b1]) simp_all
  have d: "turn_increment64 ?b' = - ((5534023222112865 / 4611686018427387904))"
    by (rule turn_increment64_reverse [OF c' v _ m3 d1 t3]) simp
  show "rotation ?b' = - ((5534023222112865 / 4611686018427387904))"
    by (rule rotation_left64 [OF v _ k(2) n(2) z(2) d a3]) simp
qed

lemma rest_stays64:
  assumes "configured64 s" "speed s = 0" "\<not> gas (controls s)" "\<not> brake (controls s)"
  shows "speed (update64 sn cs dt s) = 0"
  using assms(2-) by (simp add: update_speed64_def Let_def clamp_def speed_lo64
        configured64D [OF assms(1)])

text \<open>
  Claim C4 says that with left and right both set the heading does not change, and that
  a truck with speed 0 never rotates. Neither holds of every update on doubles. Press W
  and A at rest, call \<open>update\<close> twice, press D and call \<open>update\<close> again: before the third
  update both flags are set and the heading is \<open>0.0012\<close>; the third update computes the
  speed \<open>0.03\<close>, adds the increment \<open>0.0018\<close> to the heading, rounds, subtracts it and rounds
  again, and leaves the heading \<open>0.0012000000000000001\<close>. Press S and A at rest and call
  \<open>update\<close>: speed and heading are \<open>0\<close> before it; the speed block takes the speed to
  \<open>-0.02\<close>, past the deadzone, and the same update takes the heading to \<open>-0.0012\<close>.
\<close>

theorem opposed_steering_leaves_residue:
  "left (controls (keydown ''d'' ''KeyD'' (update64 sin cos 0 (update64 sin cos 0
       (keydown ''a'' ''KeyA'' (keydown ''w'' ''KeyW'' new_TruckController64)))))) \<and>
   right (controls (keydown ''d'' ''KeyD'' (update64 sin cos 0 (update64 sin cos 0
       (keydown ''a'' ''KeyA'' (keydown ''w'' ''KeyW'' new_TruckController64)))))) \<and>
   rotation (keydown ''d'' ''KeyD'' (update64 sin cos 0 (update64 sin cos 0
       (keydown ''a'' ''KeyA'' (keydown ''w'' ''KeyW'' new_TruckController64))))) = 5534023222112865 / 4611686018427387904 \<and>
   speed (update64 sin cos 0 (keydown ''d'' ''KeyD'' (update64 sin cos 0 (update64 sin cos 0
       (keydown ''a'' ''KeyA'' (keydown ''w'' ''KeyW'' new_TruckController64)))))) = 1080863910568919 / 36028797018963968 \<and>
   rotation (update64 sin cos 0 (keydown ''d'' ''KeyD'' (update64 sin cos 0 (update64 sin cos 0
       (keydown ''a'' ''KeyA'' (keydown ''w'' ''KeyW'' new_TruckController64)))))) = 2767011611056433 / 2305843009213693952 \<and>
   rotation (update64 sin cos 0 (keydown ''d'' ''KeyD'' (update64 sin cos 0 (update64 sin cos 0
       (keydown ''a'' ''KeyA'' (keydown ''w'' ''KeyW'' new_TruckController64)))))) \<noteq> rotation (keydown ''d'' ''KeyD'' (update64 sin cos 0 (update64 sin cos 0
       (keydown ''a'' ''KeyA'' (keydown ''w'' ''KeyW'' new_TruckController64))))) \<and>
   speed (keydown ''a'' ''KeyA'' (keydown ''s'' ''KeyS'' new_TruckController64)) = 0 \<and>
   rotation (keydown ''a'' ''KeyA'' (keydown ''s'' ''KeyS'' new_TruckController64)) = 0 \<and>
   speed (update64 sin cos 0 (keydown ''a'' ''KeyA'' (keydown ''s'' ''KeyS'' new_TruckController64))) = - ((5764607523034235 / 288230376151711744)) \<and>
   rotation (update64 sin cos 0 (keydown ''a'' ''KeyA'' (keydown ''s'' ''KeyS'' new_TruckController64))) = - ((5534023222112865 / 4611686018427387904)) \<and>
   rotation (update64 sin cos 0 (keydown ''a'' ''KeyA'' (keydown ''s'' ''KeyS'' new_TruckController64))) \<noteq> rotation (keydown ''a'' ''KeyA'' (keydown ''s'' ''KeyS'' new_TruckController64))"
proof -
  note h = steering_history64 [of sin cos 0]
  note b = brake_steer_history64 (2,3) brake_steer_history64 (6,7) [of sin cos 0]
  have 1: "rotation (update64 sin cos 0 (keydown ''d'' ''KeyD'' (update64 sin cos 0 (update64 sin cos 0
       (keydown ''a'' ''KeyA'' (keydown ''w'' ''KeyW'' new_TruckController64)))))) \<noteq> rotation (keydown ''d'' ''KeyD'' (update64 sin cos 0 (update64 sin cos 0
       (keydown ''a'' ''KeyA'' (keydown ''w'' ''KeyW'' new_TruckController64)))))"
    unfolding h(4) h(7) by simp
  have 2: "rotation (update64 sin cos 0 (keydown ''a'' ''KeyA'' (keydown ''s'' ''KeyS'' new_TruckController64))) \<noteq> rotation (keydown ''a'' ''KeyA'' (keydown ''s'' ''KeyS'' new_TruckController64))"
    unfolding b(2) b(4) by simp
  show ?thesis by (intro conjI h(2) h(3) h(4) h(5) h(7) 1 b 2)
qed

text \<open>
  Claim C4, amended. The turning block of \<open>update\<close> runs after the speed block and tests
  the speed that block has just computed, which is the speed the update ends with. For
  every update on doubles of a state with the constructor's tuning:
  the heading changes only if that speed exceeds the double \<open>0.01\<close> in absolute value;
  if that speed is zero the heading does not change; a truck at rest before the update
  does not turn unless the brake is held.
  When that speed exceeds the deadzone, the new heading is the rounded sum of the heading
  and the increment for left alone, the rounded difference for right alone, the heading
  itself for neither, and for both the increment is added and then subtracted, with a
  rounding after each. The increment is positive at positive speed and negative at
  negative speed, so the same steer intent turns the opposite way in reverse, and it
  differs from \<open>turnSpeed * (\<bar>speed\<bar> / maxSpeed) * sgn speed\<close> by at most \<open>2 ^ -51\<close> of that
  value. With left and right both set the heading changes by at most
  \<open>(\<bar>heading\<bar> + \<bar>increment\<bar>) / 2 ^ 51 + 2 ^ -1073\<close>, not always by zero.
\<close>

theorem steering_on_doubles:
  assumes "configured64 s"
  shows "(rotation (update64 sn cs dt s) \<noteq> rotation s \<longrightarrow>
       \<bar>speed (update64 sn cs dt s)\<bar> > round64 0.01) \<and>
    (speed (update64 sn cs dt s) = 0 \<longrightarrow> rotation (update64 sn cs dt s) = rotation s) \<and>
    (speed s = 0 \<and> \<not> brake (controls s) \<longrightarrow> rotation (update64 sn cs dt s) = rotation s) \<and>
    (\<bar>speed (update64 sn cs dt s)\<bar> > round64 0.01 \<longrightarrow>
       rotation (update64 sn cs dt s) =
         (if left (controls s)
          then (if right (controls s)
                then fsub (fadd (rotation s) (turn_increment64 (update64 sn cs dt s)))
                       (turn_increment64 (update64 sn cs dt s))
                else fadd (rotation s) (turn_increment64 (update64 sn cs dt s)))
          else (if right (controls s)
                then fsub (rotation s) (turn_increment64 (update64 sn cs dt s))
                else rotation s))) \<and>
    (\<bar>speed (update64 sn cs dt s)\<bar> > round64 0.01 \<longrightarrow>
       (0 < speed (update64 sn cs dt s) \<longrightarrow> 0 < turn_increment64 (update64 sn cs dt s)) \<and>
       (speed (update64 sn cs dt s) < 0 \<longrightarrow> turn_increment64 (update64 sn cs dt s) < 0) \<and>
       \<bar>turn_increment64 (update64 sn cs dt s) -
          turnSpeed s * (\<bar>speed (update64 sn cs dt s)\<bar> / maxSpeed s) *
            sgn (speed (update64 sn cs dt s))\<bar> \<le>
         turnSpeed s * (\<bar>speed (update64 sn cs dt s)\<bar> / maxSpeed s) / 2 ^ 51) \<and>
    (left (controls s) \<and> right (controls s) \<longrightarrow>
       \<bar>rotation (update64 sn cs dt s) - rotation s\<bar> \<le>
         (\<bar>rotation s\<bar> + \<bar>turn_increment64 (update64 sn cs dt s)\<bar>) / 2 ^ 51 + 1 / 2 ^ 1073)"
proof -
  let ?t = "update_speed64 s"
  let ?d = "turn_increment64 ?t"
  have ct: "configured64 ?t" using assms by (simp add: configured64_def)
  have eq: "rotation (update64 sn cs dt s) =
     (if \<bar>speed ?t\<bar> > round64 0.01 then
        (if left (controls s)
         then (if right (controls s) then fsub (fadd (rotation s) ?d) ?d else fadd (rotation s) ?d)
         else (if right (controls s) then fsub (rotation s) ?d else rotation s))
      else rotation s)"
    using update_rotation64_eq [of ?t] by simp
  have dz: "(0::real) \<le> round64 0.01" by (simp only: literals64)
  have 1: "rotation (update64 sn cs dt s) \<noteq> rotation s \<longrightarrow>
       \<bar>speed (update64 sn cs dt s)\<bar> > round64 0.01"
    unfolding eq by (simp split: if_splits)
  have 2: "speed (update64 sn cs dt s) = 0 \<longrightarrow> rotation (update64 sn cs dt s) = rotation s"
    unfolding eq using dz by simp
  have 3: "speed s = 0 \<and> \<not> brake (controls s) \<longrightarrow> rotation (update64 sn cs dt s) = rotation s"
    unfolding eq using rest_update_speed64 [OF assms] by simp
  have 4: "\<bar>speed (update64 sn cs dt s)\<bar> > round64 0.01 \<longrightarrow>
       rotation (update64 sn cs dt s) =
         (if left (controls s)
          then (if right (controls s)
                then fsub (fadd (rotation s) (turn_increment64 (update64 sn cs dt s)))
                       (turn_increment64 (update64 sn cs dt s))
                else fadd (rotation s) (turn_increment64 (update64 sn cs dt s)))
          else (if right (controls s)
                then fsub (rotation s) (turn_increment64 (update64 sn cs dt s))
                else rotation s))"
    unfolding eq by simp
  have 5: "\<bar>speed (update64 sn cs dt s)\<bar> > round64 0.01 \<longrightarrow>
       (0 < speed (update64 sn cs dt s) \<longrightarrow> 0 < turn_increment64 (update64 sn cs dt s)) \<and>
       (speed (update64 sn cs dt s) < 0 \<longrightarrow> turn_increment64 (update64 sn cs dt s) < 0) \<and>
       \<bar>turn_increment64 (update64 sn cs dt s) -
          turnSpeed s * (\<bar>speed (update64 sn cs dt s)\<bar> / maxSpeed s) *
            sgn (speed (update64 sn cs dt s))\<bar> \<le>
         turnSpeed s * (\<bar>speed (update64 sn cs dt s)\<bar> / maxSpeed s) / 2 ^ 51"
  proof
    assume "\<bar>speed (update64 sn cs dt s)\<bar> > round64 0.01"
    then have g: "round64 0.01 < \<bar>speed ?t\<bar>" by simp
    show "(0 < speed (update64 sn cs dt s) \<longrightarrow> 0 < turn_increment64 (update64 sn cs dt s)) \<and>
       (speed (update64 sn cs dt s) < 0 \<longrightarrow> turn_increment64 (update64 sn cs dt s) < 0) \<and>
       \<bar>turn_increment64 (update64 sn cs dt s) -
          turnSpeed s * (\<bar>speed (update64 sn cs dt s)\<bar> / maxSpeed s) *
            sgn (speed (update64 sn cs dt s))\<bar> \<le>
         turnSpeed s * (\<bar>speed (update64 sn cs dt s)\<bar> / maxSpeed s) / 2 ^ 51"
      using turn_increment64_bounds [OF ct g] by simp
  qed
  have 6: "left (controls s) \<and> right (controls s) \<longrightarrow>
       \<bar>rotation (update64 sn cs dt s) - rotation s\<bar> \<le>
         (\<bar>rotation s\<bar> + \<bar>turn_increment64 (update64 sn cs dt s)\<bar>) / 2 ^ 51 + 1 / 2 ^ 1073"
  proof
    assume lr: "left (controls s) \<and> right (controls s)"
    have nn: "0 \<le> (\<bar>rotation s\<bar> + \<bar>?d\<bar>) / 2 ^ 51 + 1 / 2 ^ 1073" by simp
    show "\<bar>rotation (update64 sn cs dt s) - rotation s\<bar> \<le>
         (\<bar>rotation s\<bar> + \<bar>turn_increment64 (update64 sn cs dt s)\<bar>) / 2 ^ 51 + 1 / 2 ^ 1073"
    proof (cases "\<bar>speed ?t\<bar> > round64 0.01")
      case True
      then have "rotation (update64 sn cs dt s) = round64 (round64 (rotation s + ?d) - ?d)"
        unfolding eq using lr by (simp add: fadd_def fsub_def)
      then show ?thesis using add_sub_residue64 [of "rotation s" ?d] by simp
    next
      case False
      then have "rotation (update64 sn cs dt s) = rotation s" unfolding eq by simp
      then show ?thesis using nn by simp
    qed
  qed
  show ?thesis by (intro conjI 1 2 3 4 5 6)
qed

text \<open>
  The theorem at the state of the history above in which W, A and D are held at speed
  \<open>0.02\<close>, and at the constructor's state.
\<close>

theorem steering_on_doubles_witness:
  "configured64 (keydown ''d'' ''KeyD'' (update64 sin cos 0 (update64 sin cos 0
       (keydown ''a'' ''KeyA'' (keydown ''w'' ''KeyW'' new_TruckController64))))) \<and>
   left (controls (keydown ''d'' ''KeyD'' (update64 sin cos 0 (update64 sin cos 0
       (keydown ''a'' ''KeyA'' (keydown ''w'' ''KeyW'' new_TruckController64)))))) \<and>
   right (controls (keydown ''d'' ''KeyD'' (update64 sin cos 0 (update64 sin cos 0
       (keydown ''a'' ''KeyA'' (keydown ''w'' ''KeyW'' new_TruckController64)))))) \<and>
   rotation (update64 sin cos 0 (keydown ''d'' ''KeyD'' (update64 sin cos 0 (update64 sin cos 0
       (keydown ''a'' ''KeyA'' (keydown ''w'' ''KeyW'' new_TruckController64)))))) \<noteq> rotation (keydown ''d'' ''KeyD'' (update64 sin cos 0 (update64 sin cos 0
       (keydown ''a'' ''KeyA'' (keydown ''w'' ''KeyW'' new_TruckController64))))) \<and>
   \<bar>speed (update64 sin cos 0 (keydown ''d'' ''KeyD'' (update64 sin cos 0 (update64 sin cos 0
       (keydown ''a'' ''KeyA'' (keydown ''w'' ''KeyW'' new_TruckController64))))))\<bar> > round64 0.01 \<and>
   rotation (update64 sin cos 0 (keydown ''d'' ''KeyD'' (update64 sin cos 0 (update64 sin cos 0
       (keydown ''a'' ''KeyA'' (keydown ''w'' ''KeyW'' new_TruckController64)))))) =
     fsub (fadd (rotation (keydown ''d'' ''KeyD'' (update64 sin cos 0 (update64 sin cos 0
       (keydown ''a'' ''KeyA'' (keydown ''w'' ''KeyW'' new_TruckController64)))))) (turn_increment64 (update64 sin cos 0 (keydown ''d'' ''KeyD'' (update64 sin cos 0 (update64 sin cos 0
       (keydown ''a'' ''KeyA'' (keydown ''w'' ''KeyW'' new_TruckController64))))))))
       (turn_increment64 (update64 sin cos 0 (keydown ''d'' ''KeyD'' (update64 sin cos 0 (update64 sin cos 0
       (keydown ''a'' ''KeyA'' (keydown ''w'' ''KeyW'' new_TruckController64))))))) \<and>
   0 < speed (update64 sin cos 0 (keydown ''d'' ''KeyD'' (update64 sin cos 0 (update64 sin cos 0
       (keydown ''a'' ''KeyA'' (keydown ''w'' ''KeyW'' new_TruckController64)))))) \<and>
   0 < turn_increment64 (update64 sin cos 0 (keydown ''d'' ''KeyD'' (update64 sin cos 0 (update64 sin cos 0
       (keydown ''a'' ''KeyA'' (keydown ''w'' ''KeyW'' new_TruckController64)))))) \<and>
   \<bar>rotation (update64 sin cos 0 (keydown ''d'' ''KeyD'' (update64 sin cos 0 (update64 sin cos 0
       (keydown ''a'' ''KeyA'' (keydown ''w'' ''KeyW'' new_TruckController64)))))) - rotation (keydown ''d'' ''KeyD'' (update64 sin cos 0 (update64 sin cos 0
       (keydown ''a'' ''KeyA'' (keydown ''w'' ''KeyW'' new_TruckController64)))))\<bar> \<le>
     (\<bar>rotation (keydown ''d'' ''KeyD'' (update64 sin cos 0 (update64 sin cos 0
       (keydown ''a'' ''KeyA'' (keydown ''w'' ''KeyW'' new_TruckController64)))))\<bar> + \<bar>turn_increment64 (update64 sin cos 0 (keydown ''d'' ''KeyD'' (update64 sin cos 0 (update64 sin cos 0
       (keydown ''a'' ''KeyA'' (keydown ''w'' ''KeyW'' new_TruckController64))))))\<bar>) / 2 ^ 51 + 1 / 2 ^ 1073 \<and>
   configured64 new_TruckController64 \<and>
   speed new_TruckController64 = 0 \<and>
   \<not> brake (controls new_TruckController64) \<and>
   speed (update64 sin cos 0 new_TruckController64) = 0 \<and>
   rotation (update64 sin cos 0 new_TruckController64) = rotation new_TruckController64"
proof -
  note h = steering_history64 [of sin cos 0]
  note th = steering_on_doubles [OF h(1), of sin cos 0]
  note th0 = steering_on_doubles [OF configured64_new, of sin cos 0]
  have ne: "rotation (update64 sin cos 0 (keydown ''d'' ''KeyD'' (update64 sin cos 0 (update64 sin cos 0
       (keydown ''a'' ''KeyA'' (keydown ''w'' ''KeyW'' new_TruckController64)))))) \<noteq> rotation (keydown ''d'' ''KeyD'' (update64 sin cos 0 (update64 sin cos 0
       (keydown ''a'' ''KeyA'' (keydown ''w'' ''KeyW'' new_TruckController64)))))"
    unfolding h(4) h(7) by simp
  have gate: "\<bar>speed (update64 sin cos 0 (keydown ''d'' ''KeyD'' (update64 sin cos 0 (update64 sin cos 0
       (keydown ''a'' ''KeyA'' (keydown ''w'' ''KeyW'' new_TruckController64))))))\<bar> > round64 0.01"
    using th [THEN conjunct1] ne by (rule mp)
  have lr: "left (controls (keydown ''d'' ''KeyD'' (update64 sin cos 0 (update64 sin cos 0
       (keydown ''a'' ''KeyA'' (keydown ''w'' ''KeyW'' new_TruckController64)))))) \<and> right (controls (keydown ''d'' ''KeyD'' (update64 sin cos 0 (update64 sin cos 0
       (keydown ''a'' ''KeyA'' (keydown ''w'' ''KeyW'' new_TruckController64))))))"
    using h(2) h(3) by (rule conjI)
  have rot: "rotation (update64 sin cos 0 (keydown ''d'' ''KeyD'' (update64 sin cos 0 (update64 sin cos 0
       (keydown ''a'' ''KeyA'' (keydown ''w'' ''KeyW'' new_TruckController64)))))) =
     fsub (fadd (rotation (keydown ''d'' ''KeyD'' (update64 sin cos 0 (update64 sin cos 0
       (keydown ''a'' ''KeyA'' (keydown ''w'' ''KeyW'' new_TruckController64)))))) (turn_increment64 (update64 sin cos 0 (keydown ''d'' ''KeyD'' (update64 sin cos 0 (update64 sin cos 0
       (keydown ''a'' ''KeyA'' (keydown ''w'' ''KeyW'' new_TruckController64))))))))
       (turn_increment64 (update64 sin cos 0 (keydown ''d'' ''KeyD'' (update64 sin cos 0 (update64 sin cos 0
       (keydown ''a'' ''KeyA'' (keydown ''w'' ''KeyW'' new_TruckController64)))))))"
    using mp [OF th [THEN conjunct2, THEN conjunct2, THEN conjunct2, THEN conjunct1] gate]
    by (simp only: h(2) h(3) if_True)
  have pos: "0 < speed (update64 sin cos 0 (keydown ''d'' ''KeyD'' (update64 sin cos 0 (update64 sin cos 0
       (keydown ''a'' ''KeyA'' (keydown ''w'' ''KeyW'' new_TruckController64))))))"
    unfolding h(5) by simp
  have inc: "0 < turn_increment64 (update64 sin cos 0 (keydown ''d'' ''KeyD'' (update64 sin cos 0 (update64 sin cos 0
       (keydown ''a'' ''KeyA'' (keydown ''w'' ''KeyW'' new_TruckController64))))))"
    using mp [OF th [THEN conjunct2, THEN conjunct2, THEN conjunct2, THEN conjunct2,
          THEN conjunct1] gate, THEN conjunct1] pos by (rule mp)
  have res: "\<bar>rotation (update64 sin cos 0 (keydown ''d'' ''KeyD'' (update64 sin cos 0 (update64 sin cos 0
       (keydown ''a'' ''KeyA'' (keydown ''w'' ''KeyW'' new_TruckController64)))))) - rotation (keydown ''d'' ''KeyD'' (update64 sin cos 0 (update64 sin cos 0
       (keydown ''a'' ''KeyA'' (keydown ''w'' ''KeyW'' new_TruckController64)))))\<bar> \<le>
     (\<bar>rotation (keydown ''d'' ''KeyD'' (update64 sin cos 0 (update64 sin cos 0
       (keydown ''a'' ''KeyA'' (keydown ''w'' ''KeyW'' new_TruckController64)))))\<bar> + \<bar>turn_increment64 (update64 sin cos 0 (keydown ''d'' ''KeyD'' (update64 sin cos 0 (update64 sin cos 0
       (keydown ''a'' ''KeyA'' (keydown ''w'' ''KeyW'' new_TruckController64))))))\<bar>) / 2 ^ 51 + 1 / 2 ^ 1073"
    using th [THEN conjunct2, THEN conjunct2, THEN conjunct2, THEN conjunct2, THEN conjunct2] lr
    by (rule mp)
  have z: "speed new_TruckController64 = 0" "\<not> brake (controls new_TruckController64)"
    and g: "\<not> gas (controls new_TruckController64)"
    by (simp_all add: new_TruckController64_def no_controls_def)
  have z': "speed (update64 sin cos 0 new_TruckController64) = 0"
    using configured64_new z(1) g z(2) by (rule rest_stays64)
  have r0: "rotation (update64 sin cos 0 new_TruckController64) = rotation new_TruckController64"
    using th0 [THEN conjunct2, THEN conjunct1] z' by (rule mp)
  have r0': "rotation (update64 sin cos 0 new_TruckController64) = rotation new_TruckController64"
    using th0 [THEN conjunct2, THEN conjunct2, THEN conjunct1] conjI [OF z] by (rule mp)
  show ?thesis by (intro conjI h(1) h(2) h(3) ne gate rot pos inc res configured64_new z z' r0)
qed

end
